theory Spec2Isabelle
  imports Main "HOL-Library.Word"
begin

section \<open>Error paths and their renderers (java/reporting/\_generate.py)\<close>

text \<open>
  The generator emits the class \<open>Reporting\<close>. A path is a list of segments; a segment is
  either a \<open>NameSegment\<close> holding a string or an \<open>IndexSegment\<close> holding an \<open>int\<close>.
  The index is only ever printed, no arithmetic is done on it, so it is an \<open>int\<close> here.
\<close>

datatype Segment = NameSegment (getName: string) | IndexSegment (getIndex: int)

text \<open>
  \<open>Reporting.Error\<close>: a cause and the path segments. \<open>PrependSegment\<close> is
  \<open>pathSegments.addFirst\<close>.
\<close>

record Error =
  cause :: string
  pathSegments :: "Segment list"

definition new_Error :: "string \<Rightarrow> Error" where
  "new_Error c = \<lparr>cause = c, pathSegments = []\<rparr>"

definition PrependSegment :: "Segment \<Rightarrow> Error \<Rightarrow> Error" where
  "PrependSegment segment error = error\<lparr>pathSegments := segment # pathSegments error\<rparr>"

text \<open>The characters the generated code names by escape sequences.\<close>

abbreviation TAB :: char where "TAB \<equiv> CHR 0x09"
abbreviation BACKSPACE :: char where "BACKSPACE \<equiv> CHR 0x08"
abbreviation NEWLINE :: char where "NEWLINE \<equiv> CHR 0x0A"
abbreviation CARRIAGE_RETURN :: char where "CARRIAGE_RETURN \<equiv> CHR 0x0D"
abbreviation FORM_FEED :: char where "FORM_FEED \<equiv> CHR 0x0C"
abbreviation DQUOTE :: char where "DQUOTE \<equiv> CHR 0x22"
abbreviation BACKSLASH :: char where "BACKSLASH \<equiv> CHR 0x5C"

text \<open>
  \<open>String.replace(target, replacement)\<close> of Java replaces every occurrence of the target,
  from left to right. Every call in the generated code passes a target of one character.
\<close>

definition replace :: "char \<Rightarrow> string \<Rightarrow> string \<Rightarrow> string" where
  "replace target replacement text =
     concat (map (\<lambda>c. if c = target then replacement else [c]) text)"

text \<open>\<open>String.join(separator, parts)\<close>.\<close>

fun join :: "string \<Rightarrow> string list \<Rightarrow> string" where
  "join sep [] = []"
| "join sep [p] = p"
| "join sep (p # q # ps) = p @ sep @ join sep (q # ps)"

text \<open>The decimal text of an integer, as string concatenation with an \<open>int\<close> gives it.\<close>

definition digit_char :: "nat \<Rightarrow> char" where
  "digit_char d = ''0123456789'' ! d"

function string_of_nat :: "nat \<Rightarrow> string" where
  "string_of_nat n =
     (if n < 10 then [digit_char n] else string_of_nat (n div 10) @ [digit_char (n mod 10)])"
  by pat_completeness auto
termination
  by (relation "measure (\<lambda>n. n)") auto

declare string_of_nat.simps [simp del]

definition string_of_int :: "int \<Rightarrow> string" where
  "string_of_int i = (if i < 0 then ''-'' @ string_of_nat (nat (- i)) else string_of_nat (nat i))"

text \<open>
  \<open>variableNameRe = Pattern.compile("^[a-zA-Z\_][a-zA-Z\_0-9]*$")\<close>, used through
  \<open>Matcher.matches()\<close>, which succeeds only when the whole input is matched.
\<close>

definition is_letter_or_underscore :: "char \<Rightarrow> bool" where
  "is_letter_or_underscore c =
     (let n = (of_char c :: nat)
      in (97 \<le> n \<and> n \<le> 122) \<or> (65 \<le> n \<and> n \<le> 90) \<or> n = 95)"

definition is_digit :: "char \<Rightarrow> bool" where
  "is_digit c = (let n = (of_char c :: nat) in 48 \<le> n \<and> n \<le> 57)"

fun variableNameRe_matches :: "string \<Rightarrow> bool" where
  "variableNameRe_matches [] = False"
| "variableNameRe_matches (c # cs) =
     (is_letter_or_underscore c \<and> list_all (\<lambda>d. is_letter_or_underscore d \<or> is_digit d) cs)"

text \<open>
  The chain of replacements applied to a name that is not a variable name, in the order of
  the generated code: tab, backspace, newline, carriage return, form feed, double quote and,
  last, backslash.
\<close>

definition escaped :: "string \<Rightarrow> string" where
  "escaped name =
     replace BACKSLASH [BACKSLASH, BACKSLASH]
       (replace DQUOTE [BACKSLASH, DQUOTE]
         (replace FORM_FEED [BACKSLASH, CHR ''f'']
           (replace CARRIAGE_RETURN [BACKSLASH, CHR ''r'']
             (replace NEWLINE [BACKSLASH, CHR ''n'']
               (replace BACKSPACE [BACKSLASH, CHR ''b'']
                 (replace TAB [BACKSLASH, CHR ''t''] name))))))"

text \<open>One iteration of the loop of \<open>generateJsonPath\<close>: the part for a segment at position \<open>i\<close>.\<close>

fun json_part :: "nat \<Rightarrow> Segment \<Rightarrow> string" where
  "json_part i (NameSegment name) =
     (if variableNameRe_matches name
      then (if i = 0 then name else ''.'' @ name @ '''')
      else [CHR ''['', DQUOTE] @ escaped name @ [DQUOTE, CHR '']''])"
| "json_part i (IndexSegment index) = ''['' @ string_of_int index @ '']''"

fun json_parts :: "nat \<Rightarrow> Segment list \<Rightarrow> string list" where
  "json_parts i [] = []"
| "json_parts i (segment # segments) = json_part i segment # json_parts (i + 1) segments"

definition generateJsonPath :: "Segment list \<Rightarrow> string" where
  "generateJsonPath segments = join '''' (json_parts 0 segments)"

definition escapeForXPath :: "string \<Rightarrow> string" where
  "escapeForXPath text =
     replace (CHR 0x27) ''&apos;''
       (replace DQUOTE ''&quot;''
         (replace (CHR ''>'') ''&gt;''
           (replace (CHR ''<'') ''&lt;''
             (replace (CHR ''/'') ''&#47;''
               (replace (CHR ''&'') ''&amp;'' text)))))"

fun xpath_part :: "Segment \<Rightarrow> string" where
  "xpath_part (NameSegment name) = escapeForXPath name"
| "xpath_part (IndexSegment index) = ''*['' @ string_of_int index @ '']''"

definition generateRelativeXPath :: "Segment list \<Rightarrow> string" where
  "generateRelativeXPath segments = join ''/'' (map xpath_part segments)"

text \<open>
  What the chain of replacements does to one character: the backslash that an earlier
  replacement has written is itself replaced by the last one.
\<close>

definition escaped_char :: "char \<Rightarrow> string" where
  "escaped_char c =
     (if c = TAB then [BACKSLASH, BACKSLASH, CHR ''t'']
      else if c = BACKSPACE then [BACKSLASH, BACKSLASH, CHR ''b'']
      else if c = NEWLINE then [BACKSLASH, BACKSLASH, CHR ''n'']
      else if c = CARRIAGE_RETURN then [BACKSLASH, BACKSLASH, CHR ''r'']
      else if c = FORM_FEED then [BACKSLASH, BACKSLASH, CHR ''f'']
      else if c = DQUOTE then [BACKSLASH, BACKSLASH, DQUOTE]
      else if c = BACKSLASH then [BACKSLASH, BACKSLASH]
      else [c])"

section \<open>The schema (the intermediate representation read by the generator)\<close>

text \<open>
  The generator in \<open>csharp/xmlization/\_generate.py\<close> reads a symbol table of enumerations,
  constrained primitives and classes. A type annotation that refers to one of our symbols
  holds the symbol's name; \<open>symbol\<close> of the context below resolves it.
\<close>

datatype PrimitiveType = BOOL | INT' | FLOAT | STR' | BYTEARRAY

datatype TypeAnnotation =
    PrimitiveTypeAnnotation PrimitiveType
  | OurTypeAnnotation string
  | ListTypeAnnotation TypeAnnotation
  | OptionalTypeAnnotation TypeAnnotation

record Property =
  prop_name :: string
  type_annotation :: TypeAnnotation

text \<open>
  A class: its name, its properties in declaration order, the names of the arguments of its
  constructor in their order, the names of its concrete descendants, and the implementers
  of its interface when it has one (\<open>symbol.interface.implementers\<close>, by name).
\<close>

record Class =
  cls_name :: string
  properties :: "Property list"
  constructor_arguments :: "string list"
  concrete_descendants :: "string list"
  interface :: "string list option"

text \<open>
  An enumeration is its list of literals, each a pair of the literal's name and its value,
  the string written to the document.
\<close>

datatype Symbol =
    Enumeration "(string \<times> string) list"
  | ConstrainedPrimitive PrimitiveType
  | AbstractClass Class
  | ConcreteClass Class

text \<open>
  \<open>intermediate.beneath_optional\<close> and \<open>intermediate.try\_primitive\_type\<close> are imported by the
  generator; they strip the optional mark and give the primitive type of a primitive or of a
  constrained primitive.
\<close>

fun beneath_optional :: "TypeAnnotation \<Rightarrow> TypeAnnotation" where
  "beneath_optional (OptionalTypeAnnotation t) = beneath_optional t"
| "beneath_optional t = t"

fun is_optional :: "TypeAnnotation \<Rightarrow> bool" where
  "is_optional (OptionalTypeAnnotation t) = True"
| "is_optional t = False"

section \<open>Decoded data\<close>

text \<open>
  The values the generated C\# code handles: \<open>null\<close>, the five primitives (\<open>long\<close> and
  \<open>double\<close> as their 64 bits, a byte array as a list of bytes), a literal of an enumeration
  (by its name), a \<open>List\<close>, and an instance of a class: the name of the class and the
  arguments given to its constructor, in the constructor's order.
\<close>

datatype Data =
    Null
  | Boolean bool
  | Long "64 word"
  | Double "64 word"
  | Str string
  | Bytes "8 word list"
  | EnumLiteral string
  | ListOf "Data list"
  | Instance string "Data list"

section \<open>The XML reader\<close>

text \<open>
  \<open>System.Xml.XmlReader\<close> is a forward-only cursor over the nodes of a document. It is
  modelled as the list of the nodes still to be read, the current node first; the reader is
  at the end of the file when the list is empty. A node holds what the generated code asks
  the reader for: \<open>NodeType\<close>, \<open>Name\<close>, \<open>LocalName\<close>, \<open>NamespaceURI\<close>, \<open>IsEmptyElement\<close> and
  \<open>Value\<close>.
\<close>

datatype XmlNodeType =
    Xml_None
  | Xml_Element
  | Xml_EndElement
  | Xml_Text
  | Xml_CDATA
  | Xml_Whitespace
  | Xml_SignificantWhitespace
  | Xml_Comment
  | Xml_ProcessingInstruction
  | Xml_XmlDeclaration

record Node =
  node_type :: XmlNodeType
  node_name :: string
  node_local_name :: string
  node_namespace_uri :: string
  node_is_empty_element :: bool
  node_value :: string

type_synonym Reader = "Node list"

definition EOF :: "Reader \<Rightarrow> bool" where
  "EOF reader = (reader = [])"

definition NodeType :: "Reader \<Rightarrow> XmlNodeType" where
  "NodeType reader = (case reader of [] \<Rightarrow> Xml_None | n # _ \<Rightarrow> node_type n)"

definition Name :: "Reader \<Rightarrow> string" where
  "Name reader = (case reader of [] \<Rightarrow> [] | n # _ \<Rightarrow> node_name n)"

definition LocalName :: "Reader \<Rightarrow> string" where
  "LocalName reader = (case reader of [] \<Rightarrow> [] | n # _ \<Rightarrow> node_local_name n)"

definition NamespaceURI :: "Reader \<Rightarrow> string" where
  "NamespaceURI reader = (case reader of [] \<Rightarrow> [] | n # _ \<Rightarrow> node_namespace_uri n)"

definition IsEmptyElement :: "Reader \<Rightarrow> bool" where
  "IsEmptyElement reader = (case reader of [] \<Rightarrow> False | n # _ \<Rightarrow> node_is_empty_element n)"

definition Value :: "Reader \<Rightarrow> string" where
  "Value reader = (case reader of [] \<Rightarrow> [] | n # _ \<Rightarrow> node_value n)"

definition Read :: "Reader \<Rightarrow> Reader" where
  "Read reader = (case reader of [] \<Rightarrow> [] | _ # rest \<Rightarrow> rest)"

fun NodeType_ToString :: "XmlNodeType \<Rightarrow> string" where
  "NodeType_ToString Xml_None = ''None''"
| "NodeType_ToString Xml_Element = ''Element''"
| "NodeType_ToString Xml_EndElement = ''EndElement''"
| "NodeType_ToString Xml_Text = ''Text''"
| "NodeType_ToString Xml_CDATA = ''CDATA''"
| "NodeType_ToString Xml_Whitespace = ''Whitespace''"
| "NodeType_ToString Xml_SignificantWhitespace = ''SignificantWhitespace''"
| "NodeType_ToString Xml_Comment = ''Comment''"
| "NodeType_ToString Xml_ProcessingInstruction = ''ProcessingInstruction''"
| "NodeType_ToString Xml_XmlDeclaration = ''XmlDeclaration''"

text \<open>The exceptions the generated code names, each with its text.\<close>

datatype Exception =
    FormatException string
  | XmlException string
  | InvalidOperationException string
  | ArgumentException string
  | OverflowException string
  | NullReferenceException string
  | InvalidCastException string

fun Exception_ToString :: "Exception \<Rightarrow> string" where
  "Exception_ToString (FormatException m) = ''System.FormatException: '' @ m"
| "Exception_ToString (XmlException m) = ''System.Xml.XmlException: '' @ m"
| "Exception_ToString (InvalidOperationException m) = ''System.InvalidOperationException: '' @ m"
| "Exception_ToString (ArgumentException m) = ''System.ArgumentException: '' @ m"
| "Exception_ToString (OverflowException m) = ''System.OverflowException: '' @ m"
| "Exception_ToString (NullReferenceException m) = ''System.NullReferenceException: '' @ m"
| "Exception_ToString (InvalidCastException m) = ''System.InvalidCastException: '' @ m"

text \<open>
  The context of the generated code: the symbol table, the naming functions of the modules
  \<open>naming\<close> and \<open>csharp.naming\<close>, and the conversions between text and primitive values that
  \<open>XmlReader\<close> and \<open>XmlWriter\<close> apply. All of them are outside the generator and are taken as
  given.
\<close>

record Context =
  symbol :: "string \<Rightarrow> Symbol"
  xml_property :: "string \<Rightarrow> string"
  xml_class_name :: "string \<Rightarrow> string"
  property_name :: "string \<Rightarrow> string"
  class_name :: "string \<Rightarrow> string"
  enum_name :: "string \<Rightarrow> string"
  ToBoolean :: "string \<Rightarrow> Exception + bool"
  ToInt64 :: "string \<Rightarrow> Exception + 64 word"
  ToDouble :: "string \<Rightarrow> Exception + 64 word"
  FromBase64String :: "string \<Rightarrow> Exception + 8 word list"
  BooleanToString :: "bool \<Rightarrow> string"
  Int64ToString :: "64 word \<Rightarrow> string"
  DoubleToString :: "64 word \<Rightarrow> string"
  ToBase64String :: "8 word list \<Rightarrow> string"

fun try_primitive_type :: "Context \<Rightarrow> TypeAnnotation \<Rightarrow> PrimitiveType option" where
  "try_primitive_type ctx (PrimitiveTypeAnnotation a) = Some a"
| "try_primitive_type ctx (OurTypeAnnotation s) =
     (case symbol ctx s of ConstrainedPrimitive a \<Rightarrow> Some a | _ \<Rightarrow> None)"
| "try_primitive_type ctx t = None"

text \<open>
  The outcome of a generated function that hands its error out through \<open>out error\<close>:
  a result with the error null, an error with the result null, or an exception that leaves
  the function. \<open>Ungenerated\<close> stands for a schema for which the generator asserts and
  writes no code.
\<close>

datatype 'a Outcome =
    Ok 'a
  | Failed Error
  | Thrown Exception
  | Ungenerated


section \<open>The generated deserialization (csharp/xmlization/\_generate.py)\<close>

subsection \<open>Helpers of \<open>DeserializeImplementation\<close>\<close>

text \<open>\<open>SkipNoneWhitespaceAndComments\<close>: the loop reads on while the node is skippable.\<close>

fun SkipNoneWhitespaceAndComments :: "Reader \<Rightarrow> Reader" where
  "SkipNoneWhitespaceAndComments [] = []"
| "SkipNoneWhitespaceAndComments (n # rest) =
     (if node_type n = Xml_None \<or> node_type n = Xml_Whitespace \<or> node_type n = Xml_Comment
      then SkipNoneWhitespaceAndComments rest
      else n # rest)"

text \<open>
  \<open>ReadContentAsString\<close> and its siblings belong to \<open>XmlReader\<close>. They concatenate the text,
  CDATA and whitespace nodes from the current node on, pass over comments and processing
  instructions, and stop at the first other node; on an end element the content is empty
  and the reader stays; on a node with no content at all (an element, say) they throw
  \<open>InvalidOperationException\<close>. The typed ones convert the text with the conversions of
  the context.
\<close>

fun read_content :: "Reader \<Rightarrow> string \<times> Reader" where
  "read_content [] = ([], [])"
| "read_content (n # rest) =
     (if node_type n = Xml_Text \<or> node_type n = Xml_CDATA \<or> node_type n = Xml_Whitespace
         \<or> node_type n = Xml_SignificantWhitespace
      then (node_value n @ fst (read_content rest), snd (read_content rest))
      else if node_type n = Xml_Comment \<or> node_type n = Xml_ProcessingInstruction
      then read_content rest
      else ([], n # rest))"

definition CanReadContentAs :: "Reader \<Rightarrow> bool" where
  "CanReadContentAs reader =
     (NodeType reader = Xml_Text \<or> NodeType reader = Xml_CDATA
      \<or> NodeType reader = Xml_Whitespace \<or> NodeType reader = Xml_SignificantWhitespace
      \<or> NodeType reader = Xml_Comment \<or> NodeType reader = Xml_ProcessingInstruction
      \<or> NodeType reader = Xml_EndElement)"

definition ReadContentAsString :: "Reader \<Rightarrow> (Exception + string) \<times> Reader" where
  "ReadContentAsString reader =
     (if CanReadContentAs reader
      then (Inr (fst (read_content reader)), snd (read_content reader))
      else (Inl (InvalidOperationException
              (''The ReadContentAsString method is not supported on node type ''
               @ NodeType_ToString (NodeType reader))), reader))"

definition ReadContentAs ::
  "(string \<Rightarrow> Exception + 'a) \<Rightarrow> Reader \<Rightarrow> (Exception + 'a) \<times> Reader" where
  "ReadContentAs convert reader =
     (case ReadContentAsString reader of
        (Inl exception, reader') \<Rightarrow> (Inl exception, reader')
      | (Inr text, reader') \<Rightarrow> (convert text, reader'))"

text \<open>
  \<open>ReadWholeContentAsBase64\<close>: the loop asks the reader for at most 1024 bytes at a time
  and appends them to the stream until the reader gives none. \<open>pending\<close> are the decoded
  bytes the reader has not handed out yet.
\<close>

function ReadWholeContentAsBase64_loop :: "8 word list \<Rightarrow> 8 word list \<Rightarrow> 8 word list" where
  "ReadWholeContentAsBase64_loop pending stream =
     (let readBytes = min 1024 (length pending)
      in if readBytes > 0
         then ReadWholeContentAsBase64_loop (drop readBytes pending) (stream @ take readBytes pending)
         else stream)"
  by pat_completeness auto
termination
  by (relation "measure (\<lambda>(pending, stream). length pending)") auto

declare ReadWholeContentAsBase64_loop.simps [simp del]

definition ReadWholeContentAsBase64 ::
  "Context \<Rightarrow> Reader \<Rightarrow> (Exception + 8 word list) \<times> Reader" where
  "ReadWholeContentAsBase64 ctx reader =
     (case ReadContentAs (FromBase64String ctx) reader of
        (Inl exception, reader') \<Rightarrow> (Inl exception, reader')
      | (Inr pending, reader') \<Rightarrow> (Inr (ReadWholeContentAsBase64_loop pending []), reader'))"

text \<open>\<open>TryElementName\<close>: check the namespace and extract the element's name.\<close>

definition msg_namespace :: "string \<Rightarrow> string \<Rightarrow> string" where
  "msg_namespace ns got =
     ''Expected an element within a namespace '' @ ns @ '', but got: '' @ got"

definition TryElementName :: "Reader \<Rightarrow> string option \<Rightarrow> string Outcome" where
  "TryElementName reader ns =
     (if NodeType reader \<noteq> Xml_Element \<and> NodeType reader \<noteq> Xml_EndElement
      then Thrown (InvalidOperationException
             (''Expected to be at a start or an end element in TryElementName, but got: ''
              @ NodeType_ToString (NodeType reader)))
      else (case ns of
              None \<Rightarrow> Ok (Name reader)
            | Some n \<Rightarrow>
                if n \<noteq> NamespaceURI reader
                then Failed (new_Error (msg_namespace n (NamespaceURI reader)))
                else Ok (LocalName reader)))"

text \<open>
  \<open>Stringification.<Enum>FromString\<close> and \<open>Stringification.ToString\<close> are generated by
  another module: the literal whose value is the text, or null; the value of a literal, or
  null.
\<close>

definition FromString :: "(string \<times> string) list \<Rightarrow> string \<Rightarrow> Data" where
  "FromString literals text =
     (case find (\<lambda>l. snd l = text) literals of None \<Rightarrow> Null | Some l \<Rightarrow> EnumLiteral (fst l))"


subsection \<open>The causes of the errors\<close>

text \<open>Each definition is one message of the generated code, with the names filled in.\<close>

definition msg_needs_content :: "string \<Rightarrow> string \<Rightarrow> string" where
  "msg_needs_content prop cls =
     ''The property '' @ prop @ '' of an instance of class '' @ cls
     @ '' can not be de-serialized from a self-closing element since it needs content''"

definition msg_content_eof :: "string \<Rightarrow> string \<Rightarrow> string" where
  "msg_content_eof prop cls =
     ''Expected an XML content representing the property '' @ prop
     @ '' of an instance of class '' @ cls @ '', but reached the end-of-file''"

definition msg_not_deserialized :: "string \<Rightarrow> string \<Rightarrow> string \<Rightarrow> string" where
  "msg_not_deserialized prop cls exception =
     ''The property '' @ prop @ '' of an instance of class '' @ cls
     @ '' could not be de-serialized: '' @ exception"

definition msg_not_deserialized_as_string :: "string \<Rightarrow> string \<Rightarrow> string \<Rightarrow> string" where
  "msg_not_deserialized_as_string prop cls exception =
     ''The property '' @ prop @ '' of an instance of class '' @ cls
     @ '' could not be de-serialized as a string: '' @ exception"

definition msg_unexpected_literal :: "string \<Rightarrow> string \<Rightarrow> string \<Rightarrow> string" where
  "msg_unexpected_literal prop cls text =
     ''The property '' @ prop @ '' of an instance of class '' @ cls
     @ '' could not be de-serialized from an unexpected enumeration literal: '' @ text"

definition msg_interface_self_closing :: "string \<Rightarrow> string \<Rightarrow> string \<Rightarrow> string" where
  "msg_interface_self_closing elementName prop cls =
     ''Expected an XML element within the element '' @ elementName
     @ '' representing the property '' @ prop @ '' of an instance of class '' @ cls
     @ '', but encountered a self-closing element {elementName}''"

definition msg_interface_eof :: "string \<Rightarrow> string \<Rightarrow> string \<Rightarrow> string" where
  "msg_interface_eof elementName prop cls =
     ''Expected an XML element within the element '' @ elementName
     @ '' representing the property '' @ prop @ '' of an instance of class '' @ cls
     @ '', but reached the end-of-file''"

definition msg_sequence_eof :: "string \<Rightarrow> string" where
  "msg_sequence_eof cls =
     ''Expected an XML element representing a property of an instance of class '' @ cls
     @ '', but reached the end-of-file''"

definition msg_unexpected_property :: "string \<Rightarrow> string \<Rightarrow> string" where
  "msg_unexpected_property cls elementName =
     ''We expected properties of the class '' @ cls
     @ '', but got an unexpected element with the name '' @ elementName"

definition msg_property_end_eof :: "string \<Rightarrow> string \<Rightarrow> string" where
  "msg_property_end_eof cls elementName =
     ''Expected an XML end element to conclude a property of class '' @ cls
     @ '' with the element name '' @ elementName @ '', but got the end-of-file.''"

definition msg_property_end_node :: "string \<Rightarrow> string \<Rightarrow> string \<Rightarrow> string \<Rightarrow> string" where
  "msg_property_end_node cls elementName nodeType val =
     ''Expected an XML end element to conclude a property of class '' @ cls
     @ '' with the element name '' @ elementName @ '', but got the node of type '' @ nodeType
     @ '' with the value '' @ val"

definition msg_property_end_name :: "string \<Rightarrow> string \<Rightarrow> string \<Rightarrow> string" where
  "msg_property_end_name cls elementName got =
     ''Expected an XML end element to conclude a property of class '' @ cls
     @ '' with the element name '' @ elementName
     @ '', but got the end element with the name '' @ got"

definition msg_required_property :: "string \<Rightarrow> string \<Rightarrow> string" where
  "msg_required_property prop cls =
     ''The required property '' @ prop
     @ '' has not been given in the XML representation of an instance of class '' @ cls"

definition msg_class_eof :: "string \<Rightarrow> string" where
  "msg_class_eof cls =
     ''Expected an XML element representing an instance of class '' @ cls
     @ '', but reached the end-of-file''"

definition msg_class_node :: "string \<Rightarrow> string \<Rightarrow> string \<Rightarrow> string" where
  "msg_class_node cls nodeType val =
     ''Expected an XML element representing an instance of class '' @ cls
     @ '', but got a node of type '' @ nodeType @ '' with value '' @ val"

definition msg_class_name :: "string \<Rightarrow> string \<Rightarrow> string \<Rightarrow> string" where
  "msg_class_name cls xml_name elementName =
     ''Expected an element representing an instance of class '' @ cls
     @ '' with element name '' @ xml_name @ '', but got: '' @ elementName"

definition msg_class_end_eof :: "string \<Rightarrow> string" where
  "msg_class_end_eof cls =
     ''Expected an XML end element concluding an instance of class '' @ cls
     @ '', but reached the end-of-file''"

definition msg_class_end_node :: "string \<Rightarrow> string \<Rightarrow> string \<Rightarrow> string" where
  "msg_class_end_node cls nodeType val =
     ''Expected an XML end element concluding an instance of class '' @ cls
     @ '', but got a node of type '' @ nodeType @ '' with value '' @ val"

definition msg_class_end_name :: "string \<Rightarrow> string \<Rightarrow> string" where
  "msg_class_end_name elementName endElementName =
     ''Expected an XML end element with an name '' @ elementName
     @ '', but got: '' @ endElementName"

definition msg_interface_node :: "string \<Rightarrow> string \<Rightarrow> string" where
  "msg_interface_node nodeType val =
     ''Expected an XML element, but got a node of type '' @ nodeType @ '' with value '' @ val"

definition msg_unexpected_element :: "string \<Rightarrow> string" where
  "msg_unexpected_element elementName = ''Unexpected element with the name '' @ elementName"


subsection \<open>Properties of primitive and enumeration type\<close>

definition read_primitive :: "Context \<Rightarrow> PrimitiveType \<Rightarrow> Reader \<Rightarrow> (Exception + Data) \<times> Reader" where
  "read_primitive ctx a_type reader =
     (case a_type of
        BOOL \<Rightarrow> map_prod (map_sum id Boolean) id (ReadContentAs (ToBoolean ctx) reader)
      | INT' \<Rightarrow> map_prod (map_sum id Long) id (ReadContentAs (ToInt64 ctx) reader)
      | FLOAT \<Rightarrow> map_prod (map_sum id Double) id (ReadContentAs (ToDouble ctx) reader)
      | STR' \<Rightarrow> map_prod (map_sum id Str) id (ReadContentAsString reader)
      | BYTEARRAY \<Rightarrow> map_prod (map_sum id Bytes) id (ReadWholeContentAsBase64 ctx reader))"

text \<open>
  \<open>\_generate\_deserialize\_primitive\_property\<close>: only a string is given a value from a
  self-closing element; every other primitive type is an error there. An exception of the
  reader is turned into an error when it is a \<open>FormatException\<close> or an \<open>XmlException\<close>
  and thrown on otherwise.
\<close>

definition deserialize_primitive_property ::
  "Context \<Rightarrow> Property \<Rightarrow> Class \<Rightarrow> bool \<Rightarrow> Reader \<Rightarrow> Data Outcome \<times> Reader" where
  "deserialize_primitive_property ctx prop cls isEmptyProperty reader =
     (case try_primitive_type ctx (beneath_optional (type_annotation prop)) of
        None \<Rightarrow> (Ungenerated, reader)
      | Some a_type \<Rightarrow>
          if isEmptyProperty
          then (if a_type = STR'
                then (Ok (Str []), reader)
                else (Failed (PrependSegment (NameSegment (xml_property ctx (prop_name prop)))
                        (new_Error (msg_needs_content (property_name ctx (prop_name prop))
                                      (class_name ctx (cls_name cls))))), reader))
          else if EOF reader
          then (Failed (new_Error (msg_content_eof (property_name ctx (prop_name prop))
                                     (class_name ctx (cls_name cls)))), reader)
          else (case read_primitive ctx a_type reader of
                  (Inr v, reader') \<Rightarrow> (Ok v, reader')
                | (Inl (FormatException m), reader') \<Rightarrow>
                    (Failed (PrependSegment (NameSegment (xml_property ctx (prop_name prop)))
                       (new_Error (msg_not_deserialized (property_name ctx (prop_name prop))
                          (class_name ctx (cls_name cls))
                          (Exception_ToString (FormatException m))))), reader')
                | (Inl (XmlException m), reader') \<Rightarrow>
                    (Failed (PrependSegment (NameSegment (xml_property ctx (prop_name prop)))
                       (new_Error (msg_not_deserialized (property_name ctx (prop_name prop))
                          (class_name ctx (cls_name cls))
                          (Exception_ToString (XmlException m))))), reader')
                | (Inl exception, reader') \<Rightarrow> (Thrown exception, reader')))"

text \<open>
  \<open>\_generate\_deserialize\_enumeration\_property\<close>. Only \<open>FormatException\<close> is caught
  around the read.
\<close>

definition deserialize_enumeration_property ::
  "Context \<Rightarrow> (string \<times> string) list \<Rightarrow> Property \<Rightarrow> Class \<Rightarrow> bool \<Rightarrow> Reader
     \<Rightarrow> Data Outcome \<times> Reader" where
  "deserialize_enumeration_property ctx literals prop cls isEmptyProperty reader =
     (if isEmptyProperty
      then (Failed (PrependSegment (NameSegment (xml_property ctx (prop_name prop)))
              (new_Error (msg_needs_content (property_name ctx (prop_name prop))
                            (class_name ctx (cls_name cls))))), reader)
      else if EOF reader
      then (Failed (new_Error (msg_content_eof (property_name ctx (prop_name prop))
                                 (class_name ctx (cls_name cls)))), reader)
      else (case ReadContentAsString reader of
              (Inl (FormatException m), reader') \<Rightarrow>
                (Failed (PrependSegment (NameSegment (xml_property ctx (prop_name prop)))
                   (new_Error (msg_not_deserialized_as_string (property_name ctx (prop_name prop))
                      (class_name ctx (cls_name cls))
                      (Exception_ToString (FormatException m))))), reader')
            | (Inl exception, reader') \<Rightarrow> (Thrown exception, reader')
            | (Inr text, reader') \<Rightarrow>
                if FromString literals text = Null
                then (Failed (PrependSegment (NameSegment (xml_property ctx (prop_name prop)))
                        (new_Error (msg_unexpected_literal (property_name ctx (prop_name prop))
                           (class_name ctx (cls_name cls)) text))), reader')
                else (Ok (FromString literals text), reader')))"

subsection \<open>The end of a property and of a class element\<close>

text \<open>
  The block of the sequence loop that reads the end element of a property that is not
  self-closing, up to the skip that follows it.
\<close>

definition read_property_end ::
  "Context \<Rightarrow> Class \<Rightarrow> string \<Rightarrow> Reader \<Rightarrow> string option \<Rightarrow> unit Outcome \<times> Reader" where
  "read_property_end ctx cls elementName reader ns =
     (if EOF reader
      then (Failed (new_Error (msg_property_end_eof (class_name ctx (cls_name cls)) elementName)),
            reader)
      else if NodeType reader \<noteq> Xml_EndElement
      then (Failed (new_Error (msg_property_end_node (class_name ctx (cls_name cls)) elementName
                      (NodeType_ToString (NodeType reader)) (Value reader))), reader)
      else (case TryElementName reader ns of
              Failed error \<Rightarrow> (Failed error, reader)
            | Thrown exception \<Rightarrow> (Thrown exception, reader)
            | Ungenerated \<Rightarrow> (Ungenerated, reader)
            | Ok endElementName \<Rightarrow>
                if endElementName \<noteq> elementName
                then (Failed (new_Error (msg_property_end_name (class_name ctx (cls_name cls))
                                elementName (Name reader))), reader)
                else (Ok (), SkipNoneWhitespaceAndComments (Read reader))))"

text \<open>The block of \<open><Class>FromElement\<close> that reads the end element of the class.\<close>

definition read_class_end ::
  "Context \<Rightarrow> Class \<Rightarrow> string \<Rightarrow> Reader \<Rightarrow> string option \<Rightarrow> unit Outcome \<times> Reader" where
  "read_class_end ctx cls elementName reader ns =
     (if EOF reader
      then (Failed (new_Error (msg_class_end_eof (class_name ctx (cls_name cls)))), reader)
      else if NodeType reader \<noteq> Xml_EndElement
      then (Failed (new_Error (msg_class_end_node (class_name ctx (cls_name cls))
                      (NodeType_ToString (NodeType reader)) (Value reader))), reader)
      else (case TryElementName reader ns of
              Failed error \<Rightarrow> (Failed error, reader)
            | Thrown exception \<Rightarrow> (Thrown exception, reader)
            | Ungenerated \<Rightarrow> (Ungenerated, reader)
            | Ok endElementName \<Rightarrow>
                if endElementName \<noteq> elementName
                then (Failed (new_Error (msg_class_end_name elementName endElementName)), reader)
                else (Ok (), Read reader)))"

subsection \<open>The checks after the loop and the call of the constructor\<close>

text \<open>
  The temporaries \<open>the\_<property>\<close> of \<open><Class>FromSequence\<close> are a function from the name
  of the property to its value, all null at the start. After the loop one check per
  property that is not optional follows, in the order of the properties; the first
  property whose temporary is still null is reported.
\<close>

type_synonym Slots = "string \<Rightarrow> Data"

fun first_missing :: "Property list \<Rightarrow> Slots \<Rightarrow> Property option" where
  "first_missing [] slots = None"
| "first_missing (prop # props) slots =
     (if \<not> is_optional (type_annotation prop) \<and> slots (prop_name prop) = Null
      then Some prop
      else first_missing props slots)"

definition required_argument :: "Class \<Rightarrow> string \<Rightarrow> bool" where
  "required_argument cls arg =
     (case find (\<lambda>p. prop_name p = arg) (properties cls) of
        None \<Rightarrow> False
      | Some p \<Rightarrow> \<not> is_optional (type_annotation p))"

definition construct :: "Class \<Rightarrow> Slots \<Rightarrow> Data Outcome" where
  "construct cls slots =
     (if list_ex (\<lambda>arg. required_argument cls arg \<and> slots arg = Null) (constructor_arguments cls)
      then Thrown (InvalidOperationException ''Unexpected null, had to be handled before'')
      else Ok (Instance (cls_name cls) (map slots (constructor_arguments cls))))"

definition check_and_construct :: "Context \<Rightarrow> Class \<Rightarrow> Slots \<Rightarrow> Data Outcome" where
  "check_and_construct ctx cls slots =
     (case first_missing (properties cls) slots of
        Some prop \<Rightarrow>
          Failed (new_Error (msg_required_property (property_name ctx (prop_name prop))
                               (class_name ctx (cls_name cls))))
      | None \<Rightarrow> construct cls slots)"


subsection \<open>The generated functions\<close>

text \<open>
  The generated functions call each other recursively and loop over the nodes of the
  reader. They are defined with fuel: \<open>None\<close> is "out of fuel", and every call and every
  iteration of a loop uses one unit. A result is a pair of the outcome and the reader as
  the function leaves it.

  Each function is first written as a step that takes the functions it calls as arguments;
  the recursion on the fuel then gives every step the functions of the level below.
\<close>

type_synonym 'a Result = "('a Outcome \<times> Reader) option"

definition and_then :: "'a Result \<Rightarrow> ('a \<Rightarrow> Reader \<Rightarrow> 'b Result) \<Rightarrow> 'b Result" where
  "and_then m f =
     (case m of
        None \<Rightarrow> None
      | Some (Ok v, reader) \<Rightarrow> f v reader
      | Some (Failed error, reader) \<Rightarrow> Some (Failed error, reader)
      | Some (Thrown exception, reader) \<Rightarrow> Some (Thrown exception, reader)
      | Some (Ungenerated, reader) \<Rightarrow> Some (Ungenerated, reader))"

text \<open>\<open>if (error != null) { error.PrependSegment(segment); return null; }\<close>\<close>

definition with_segment :: "Segment \<Rightarrow> 'a Result \<Rightarrow> 'a Result" where
  "with_segment segment m =
     (case m of
        Some (Failed error, reader) \<Rightarrow> Some (Failed (PrependSegment segment error), reader)
      | _ \<Rightarrow> m)"

fun symbol_class :: "Symbol \<Rightarrow> Class option" where
  "symbol_class (AbstractClass c) = Some c"
| "symbol_class (ConcreteClass c) = Some c"
| "symbol_class _ = None"

text \<open>
  \<open>isinstance(symbol, AbstractClass) or len(symbol.concrete\_descendants) > 0\<close>: the value
  is read through \<open><Interface>FromElement\<close>.
\<close>

fun by_interface :: "Symbol \<Rightarrow> bool" where
  "by_interface (AbstractClass c) = True"
| "by_interface (ConcreteClass c) = (concrete_descendants c \<noteq> [])"
| "by_interface _ = False"

text \<open>\<open><Class>FromSequence\<close>, from \<open>\_generate\_deserialize\_impl\_cls\_from\_sequence\<close>.\<close>

definition FromSequence_step ::
  "Context \<Rightarrow> (Class \<Rightarrow> Slots \<Rightarrow> Reader \<Rightarrow> string option \<Rightarrow> Slots Result)
     \<Rightarrow> Class \<Rightarrow> Reader \<Rightarrow> bool \<Rightarrow> string option \<Rightarrow> Data Result" where
  "FromSequence_step ctx call_sequence_loop cls reader isEmptySequence ns =
     (if constructor_arguments cls = []
      then Some (Ok (Instance (cls_name cls) []), reader)
      else if set (map prop_name (properties cls)) \<noteq> set (constructor_arguments cls)
      then Some (Ungenerated, reader)
      else if isEmptySequence
      then Some (check_and_construct ctx cls (\<lambda>name. Null), reader)
      else if EOF (SkipNoneWhitespaceAndComments reader)
      then Some (Failed (new_Error (msg_sequence_eof (class_name ctx (cls_name cls)))),
                 SkipNoneWhitespaceAndComments reader)
      else and_then
             (call_sequence_loop cls (\<lambda>name. Null) (SkipNoneWhitespaceAndComments reader) ns)
             (\<lambda>slots reader'. Some (check_and_construct ctx cls slots, reader')))"

text \<open>The \<open>while (reader.NodeType == Xml.XmlNodeType.Element)\<close> loop of the sequence.\<close>

definition sequence_loop_step ::
  "Context
     \<Rightarrow> (Property \<Rightarrow> Class \<Rightarrow> bool \<Rightarrow> string \<Rightarrow> Reader \<Rightarrow> string option \<Rightarrow> Data Result)
     \<Rightarrow> (Class \<Rightarrow> Slots \<Rightarrow> Reader \<Rightarrow> string option \<Rightarrow> Slots Result)
     \<Rightarrow> Class \<Rightarrow> Slots \<Rightarrow> Reader \<Rightarrow> string option \<Rightarrow> Slots Result" where
  "sequence_loop_step ctx call_deserialize_property call_sequence_loop cls slots reader ns =
     (if NodeType reader \<noteq> Xml_Element
      then Some (Ok slots, reader)
      else and_then (Some (TryElementName reader ns, reader))
        (\<lambda>elementName reader0.
           case find (\<lambda>p. xml_property ctx (prop_name p) = elementName) (properties cls) of
             None \<Rightarrow>
               Some (Failed (new_Error (msg_unexpected_property (class_name ctx (cls_name cls))
                                          elementName)), Read reader)
           | Some prop \<Rightarrow>
               and_then
                 (call_deserialize_property prop cls (IsEmptyElement reader) elementName
                    (Read reader) ns)
                 (\<lambda>v reader1.
                    and_then
                      (Some (if IsEmptyElement reader
                             then (Ok (), SkipNoneWhitespaceAndComments reader1)
                             else read_property_end ctx cls elementName
                                    (SkipNoneWhitespaceAndComments reader1) ns))
                      (\<lambda>u reader2.
                         if EOF reader2
                         then Some (Ok (slots(prop_name prop := v)), reader2)
                         else call_sequence_loop cls (slots(prop_name prop := v)) reader2 ns))))"

text \<open>
  The body of the \<open>case\<close> of a property, from \<open>\_generate\_deserialize\_property\<close> and the
  functions it dispatches to.
\<close>

definition deserialize_property_step ::
  "Context
     \<Rightarrow> (Class \<Rightarrow> Reader \<Rightarrow> bool \<Rightarrow> string option \<Rightarrow> Data Result)
     \<Rightarrow> (string list \<Rightarrow> Reader \<Rightarrow> string option \<Rightarrow> Data Result)
     \<Rightarrow> (Symbol \<Rightarrow> nat \<Rightarrow> Data list \<Rightarrow> Reader \<Rightarrow> string option \<Rightarrow> (Data list) Result)
     \<Rightarrow> Property \<Rightarrow> Class \<Rightarrow> bool \<Rightarrow> string \<Rightarrow> Reader \<Rightarrow> string option \<Rightarrow> Data Result" where
  "deserialize_property_step ctx call_FromSequence call_InterfaceFromElement call_list_loop
       prop cls isEmptyProperty elementName reader ns =
     (case beneath_optional (type_annotation prop) of
        PrimitiveTypeAnnotation a \<Rightarrow>
          Some (deserialize_primitive_property ctx prop cls isEmptyProperty reader)
      | OurTypeAnnotation s \<Rightarrow>
          (case symbol ctx s of
             Enumeration literals \<Rightarrow>
               Some (deserialize_enumeration_property ctx literals prop cls isEmptyProperty reader)
           | ConstrainedPrimitive a \<Rightarrow>
               Some (deserialize_primitive_property ctx prop cls isEmptyProperty reader)
           | _ \<Rightarrow>
               (case symbol_class (symbol ctx s) of
                  None \<Rightarrow> Some (Ungenerated, reader)
                | Some c \<Rightarrow>
                    if by_interface (symbol ctx s)
                    then (case interface c of
                            None \<Rightarrow> Some (Ungenerated, reader)
                          | Some implementers \<Rightarrow>
                              if isEmptyProperty
                              then Some (Failed (new_Error (msg_interface_self_closing elementName
                                           (property_name ctx (prop_name prop))
                                           (class_name ctx (cls_name cls)))), reader)
                              else if EOF reader
                              then Some (Failed (new_Error (msg_interface_eof elementName
                                           (property_name ctx (prop_name prop))
                                           (class_name ctx (cls_name cls)))), reader)
                              else with_segment (NameSegment (xml_property ctx (prop_name prop)))
                                     (call_InterfaceFromElement implementers reader ns))
                    else with_segment (NameSegment (xml_property ctx (prop_name prop)))
                           (call_FromSequence c reader isEmptyProperty ns)))
      | ListTypeAnnotation items \<Rightarrow>
          (case items of
             OurTypeAnnotation s \<Rightarrow>
               (case symbol_class (symbol ctx s) of
                  None \<Rightarrow> Some (Ungenerated, reader)
                | Some c \<Rightarrow>
                    if isEmptyProperty
                    then Some (Ok (ListOf []), reader)
                    else and_then
                           (call_list_loop (symbol ctx s) 0 []
                              (SkipNoneWhitespaceAndComments reader) ns)
                           (\<lambda>the_list reader'. Some (Ok (ListOf the_list), reader')))
           | _ \<Rightarrow> Some (Ungenerated, reader))
      | OptionalTypeAnnotation t \<Rightarrow> Some (Ungenerated, reader))"

text \<open>
  The loop of \<open>\_generate\_deserialize\_list\_property\<close>. The index counts the items added to
  the list, and a \<open>List\<close> holds fewer than \<open>2^31\<close> items, so the \<open>int\<close> of the generated
  code does not wrap.
\<close>

definition list_loop_step ::
  "(Symbol \<Rightarrow> Reader \<Rightarrow> string option \<Rightarrow> Data Result)
     \<Rightarrow> (Symbol \<Rightarrow> nat \<Rightarrow> Data list \<Rightarrow> Reader \<Rightarrow> string option \<Rightarrow> (Data list) Result)
     \<Rightarrow> Symbol \<Rightarrow> nat \<Rightarrow> Data list \<Rightarrow> Reader \<Rightarrow> string option \<Rightarrow> (Data list) Result" where
  "list_loop_step call_item_from_element call_list_loop item_symbol index the_list reader ns =
     (if NodeType reader \<noteq> Xml_Element
      then Some (Ok the_list, reader)
      else and_then
             (with_segment (IndexSegment (int index))
                (call_item_from_element item_symbol reader ns))
             (\<lambda>item reader'.
                if item = Null
                then Some (Thrown (InvalidOperationException
                             ''Unexpected item null when error null''), reader')
                else call_list_loop item_symbol (index + 1) (the_list @ [item])
                       (SkipNoneWhitespaceAndComments reader') ns))"

text \<open>The \<open>deserialize\_method\<close> of the items of a list.\<close>

definition item_from_element_step ::
  "(Class \<Rightarrow> Reader \<Rightarrow> string option \<Rightarrow> Data Result)
     \<Rightarrow> (string list \<Rightarrow> Reader \<Rightarrow> string option \<Rightarrow> Data Result)
     \<Rightarrow> Symbol \<Rightarrow> Reader \<Rightarrow> string option \<Rightarrow> Data Result" where
  "item_from_element_step call_ClassFromElement call_InterfaceFromElement item_symbol reader ns =
     (if by_interface item_symbol
      then (case symbol_class item_symbol of
              None \<Rightarrow> Some (Ungenerated, reader)
            | Some c \<Rightarrow>
                (case interface c of
                   None \<Rightarrow> Some (Ungenerated, reader)
                 | Some implementers \<Rightarrow> call_InterfaceFromElement implementers reader ns))
      else (case item_symbol of
              ConcreteClass c \<Rightarrow> call_ClassFromElement c reader ns
            | _ \<Rightarrow> Some (Ungenerated, reader)))"

text \<open>\<open><Class>FromElement\<close>, from \<open>\_generate\_deserialize\_impl\_concrete\_cls\_from\_element\<close>.\<close>

definition ClassFromElement_step ::
  "Context \<Rightarrow> (Class \<Rightarrow> Reader \<Rightarrow> bool \<Rightarrow> string option \<Rightarrow> Data Result)
     \<Rightarrow> Class \<Rightarrow> Reader \<Rightarrow> string option \<Rightarrow> Data Result" where
  "ClassFromElement_step ctx call_FromSequence cls reader ns =
     (if EOF (SkipNoneWhitespaceAndComments reader)
      then Some (Failed (new_Error (msg_class_eof (class_name ctx (cls_name cls)))),
                 SkipNoneWhitespaceAndComments reader)
      else if NodeType (SkipNoneWhitespaceAndComments reader) \<noteq> Xml_Element
      then Some (Failed (new_Error (msg_class_node (class_name ctx (cls_name cls))
                   (NodeType_ToString (NodeType (SkipNoneWhitespaceAndComments reader)))
                   (Value (SkipNoneWhitespaceAndComments reader)))),
                 SkipNoneWhitespaceAndComments reader)
      else and_then
        (Some (TryElementName (SkipNoneWhitespaceAndComments reader) ns,
               SkipNoneWhitespaceAndComments reader))
        (\<lambda>elementName reader0.
           if elementName \<noteq> xml_class_name ctx (cls_name cls)
           then Some (Failed (new_Error (msg_class_name (class_name ctx (cls_name cls))
                        (xml_class_name ctx (cls_name cls)) elementName)), reader0)
           else and_then
                  (call_FromSequence cls (Read reader0) (IsEmptyElement reader0) ns)
                  (\<lambda>result reader1.
                     and_then
                       (Some (if IsEmptyElement reader0
                              then (Ok (), SkipNoneWhitespaceAndComments reader1)
                              else read_class_end ctx cls elementName
                                     (SkipNoneWhitespaceAndComments reader1) ns))
                       (\<lambda>u reader2. Some (Ok result, reader2)))))"

text \<open>
  \<open><Interface>FromElement\<close>, from \<open>\_generate\_deserialize\_impl\_interface\_from\_element\<close>:
  the \<open>switch\<close> over the names of the implementers.
\<close>

definition InterfaceFromElement_step ::
  "Context \<Rightarrow> (Class \<Rightarrow> Reader \<Rightarrow> string option \<Rightarrow> Data Result)
     \<Rightarrow> string list \<Rightarrow> Reader \<Rightarrow> string option \<Rightarrow> Data Result" where
  "InterfaceFromElement_step ctx call_ClassFromElement implementers reader ns =
     (if EOF (SkipNoneWhitespaceAndComments reader)
      then Some (Failed (new_Error ''Expected an XML element, but reached end-of-file''),
                 SkipNoneWhitespaceAndComments reader)
      else if NodeType (SkipNoneWhitespaceAndComments reader) \<noteq> Xml_Element
      then Some (Failed (new_Error (msg_interface_node
                   (NodeType_ToString (NodeType (SkipNoneWhitespaceAndComments reader)))
                   (Value (SkipNoneWhitespaceAndComments reader)))),
                 SkipNoneWhitespaceAndComments reader)
      else and_then
        (Some (TryElementName (SkipNoneWhitespaceAndComments reader) ns,
               SkipNoneWhitespaceAndComments reader))
        (\<lambda>elementName reader0.
           case find (\<lambda>i. xml_class_name ctx i = elementName) implementers of
             None \<Rightarrow> Some (Failed (new_Error (msg_unexpected_element elementName)), reader0)
           | Some implementer \<Rightarrow>
               (case symbol ctx implementer of
                  ConcreteClass c \<Rightarrow> call_ClassFromElement c reader0 ns
                | _ \<Rightarrow> Some (Ungenerated, reader0))))"

text \<open>The generated functions at one level of fuel.\<close>

record Generated =
  gen_FromSequence :: "Class \<Rightarrow> Reader \<Rightarrow> bool \<Rightarrow> string option \<Rightarrow> Data Result"
  gen_sequence_loop :: "Class \<Rightarrow> Slots \<Rightarrow> Reader \<Rightarrow> string option \<Rightarrow> Slots Result"
  gen_deserialize_property ::
    "Property \<Rightarrow> Class \<Rightarrow> bool \<Rightarrow> string \<Rightarrow> Reader \<Rightarrow> string option \<Rightarrow> Data Result"
  gen_list_loop ::
    "Symbol \<Rightarrow> nat \<Rightarrow> Data list \<Rightarrow> Reader \<Rightarrow> string option \<Rightarrow> (Data list) Result"
  gen_item_from_element :: "Symbol \<Rightarrow> Reader \<Rightarrow> string option \<Rightarrow> Data Result"
  gen_ClassFromElement :: "Class \<Rightarrow> Reader \<Rightarrow> string option \<Rightarrow> Data Result"
  gen_InterfaceFromElement :: "string list \<Rightarrow> Reader \<Rightarrow> string option \<Rightarrow> Data Result"

primrec generated :: "Context \<Rightarrow> nat \<Rightarrow> Generated" where
  "generated ctx 0 =
     \<lparr>gen_FromSequence = (\<lambda>cls reader isEmptySequence ns. None),
      gen_sequence_loop = (\<lambda>cls slots reader ns. None),
      gen_deserialize_property = (\<lambda>prop cls isEmptyProperty elementName reader ns. None),
      gen_list_loop = (\<lambda>item_symbol index the_list reader ns. None),
      gen_item_from_element = (\<lambda>item_symbol reader ns. None),
      gen_ClassFromElement = (\<lambda>cls reader ns. None),
      gen_InterfaceFromElement = (\<lambda>implementers reader ns. None)\<rparr>"
| "generated ctx (Suc fuel) =
     (let below = generated ctx fuel
      in \<lparr>gen_FromSequence =
            FromSequence_step ctx (gen_sequence_loop below),
          gen_sequence_loop =
            sequence_loop_step ctx (gen_deserialize_property below) (gen_sequence_loop below),
          gen_deserialize_property =
            deserialize_property_step ctx (gen_FromSequence below)
              (gen_InterfaceFromElement below) (gen_list_loop below),
          gen_list_loop =
            list_loop_step (gen_item_from_element below) (gen_list_loop below),
          gen_item_from_element =
            item_from_element_step (gen_ClassFromElement below) (gen_InterfaceFromElement below),
          gen_ClassFromElement =
            ClassFromElement_step ctx (gen_FromSequence below),
          gen_InterfaceFromElement =
            InterfaceFromElement_step ctx (gen_ClassFromElement below)\<rparr>)"

definition FromSequence ::
  "Context \<Rightarrow> nat \<Rightarrow> Class \<Rightarrow> Reader \<Rightarrow> bool \<Rightarrow> string option \<Rightarrow> Data Result" where
  "FromSequence ctx fuel = gen_FromSequence (generated ctx fuel)"

definition sequence_loop ::
  "Context \<Rightarrow> nat \<Rightarrow> Class \<Rightarrow> Slots \<Rightarrow> Reader \<Rightarrow> string option \<Rightarrow> Slots Result" where
  "sequence_loop ctx fuel = gen_sequence_loop (generated ctx fuel)"

definition deserialize_property ::
  "Context \<Rightarrow> nat \<Rightarrow> Property \<Rightarrow> Class \<Rightarrow> bool \<Rightarrow> string \<Rightarrow> Reader \<Rightarrow> string option
     \<Rightarrow> Data Result" where
  "deserialize_property ctx fuel = gen_deserialize_property (generated ctx fuel)"

definition list_loop ::
  "Context \<Rightarrow> nat \<Rightarrow> Symbol \<Rightarrow> nat \<Rightarrow> Data list \<Rightarrow> Reader \<Rightarrow> string option
     \<Rightarrow> (Data list) Result" where
  "list_loop ctx fuel = gen_list_loop (generated ctx fuel)"

definition item_from_element ::
  "Context \<Rightarrow> nat \<Rightarrow> Symbol \<Rightarrow> Reader \<Rightarrow> string option \<Rightarrow> Data Result" where
  "item_from_element ctx fuel = gen_item_from_element (generated ctx fuel)"

definition ClassFromElement ::
  "Context \<Rightarrow> nat \<Rightarrow> Class \<Rightarrow> Reader \<Rightarrow> string option \<Rightarrow> Data Result" where
  "ClassFromElement ctx fuel = gen_ClassFromElement (generated ctx fuel)"

definition InterfaceFromElement ::
  "Context \<Rightarrow> nat \<Rightarrow> string list \<Rightarrow> Reader \<Rightarrow> string option \<Rightarrow> Data Result" where
  "InterfaceFromElement ctx fuel = gen_InterfaceFromElement (generated ctx fuel)"


subsection \<open>The states of the sequence loop\<close>

text \<open>
  The loop of \<open><Class>FromSequence\<close> is in a state: the fuel left, the temporaries and the
  reader. \<open>reaches ctx cls ns state state'\<close>: from \<open>state\<close> the loop gets to \<open>state'\<close> by
  iterations that complete, each on an element that names a property of the class, whose
  value and end are read without an error and which does not end the document.
\<close>

inductive reaches ::
  "Context \<Rightarrow> Class \<Rightarrow> string option \<Rightarrow> nat \<times> Slots \<times> Reader \<Rightarrow> nat \<times> Slots \<times> Reader \<Rightarrow> bool"
  for ctx :: Context and cls :: Class and ns :: "string option"
where
  start: "reaches ctx cls ns state state"
| property:
    "reaches ctx cls ns state (Suc fuel, slots, reader)
     \<Longrightarrow> NodeType reader = Xml_Element
     \<Longrightarrow> TryElementName reader ns = Ok elementName
     \<Longrightarrow> find (\<lambda>p. xml_property ctx (prop_name p) = elementName) (properties cls) = Some prop
     \<Longrightarrow> deserialize_property ctx fuel prop cls (IsEmptyElement reader) elementName
           (Read reader) ns = Some (Ok v, content_read)
     \<Longrightarrow> (if IsEmptyElement reader
          then (Ok (), SkipNoneWhitespaceAndComments content_read)
          else read_property_end ctx cls elementName
                 (SkipNoneWhitespaceAndComments content_read) ns) = (Ok (), end_read)
     \<Longrightarrow> \<not> EOF end_read
     \<Longrightarrow> reaches ctx cls ns state (fuel, slots(prop_name prop := v), end_read)"

subsection \<open>The facade \<open>Deserialize\<close>\<close>

text \<open>
  \<open>\_generate\_deserialize\_from\<close>: the public method calls the implementation, throws an
  \<open>Xmlization.Exception\<close> with the rendered path and the cause when an error is handed out,
  and returns the result otherwise, unless it is null. The implementation hands out the
  pair of its result and its error; \<open>handed_out\<close> is that pair for an outcome.
  \<open>Reporting.GenerateRelativeXPath\<close> of the C\# code is generated by a module that is not
  part of these sources, so the renderer is an argument.
\<close>

datatype Facade =
    Returned Data
  | Xmlization_Exception (Path: string) (Cause: string)
  | Raised Exception
  | No_code

definition From :: "(Segment list \<Rightarrow> string) \<Rightarrow> Data \<times> Error option \<Rightarrow> Facade" where
  "From GenerateRelativeXPath out =
     (case snd out of
        Some error \<Rightarrow> Xmlization_Exception (GenerateRelativeXPath (pathSegments error)) (cause error)
      | None \<Rightarrow>
          if fst out = Null
          then Raised (InvalidOperationException ''Unexpected output null when error is null'')
          else Returned (fst out))"

fun after_implementation :: "(Segment list \<Rightarrow> string) \<Rightarrow> Data Outcome \<Rightarrow> Facade" where
  "after_implementation render (Ok result) = From render (result, None)"
| "after_implementation render (Failed error) = From render (Null, Some error)"
| "after_implementation render (Thrown exception) = Raised exception"
| "after_implementation render Ungenerated = No_code"

definition ClassFrom ::
  "Context \<Rightarrow> (Segment list \<Rightarrow> string) \<Rightarrow> nat \<Rightarrow> Class \<Rightarrow> Reader \<Rightarrow> string option
     \<Rightarrow> Facade option" where
  "ClassFrom ctx render fuel cls reader ns =
     map_option (\<lambda>r. after_implementation render (fst r)) (ClassFromElement ctx fuel cls reader ns)"

definition InterfaceFrom ::
  "Context \<Rightarrow> (Segment list \<Rightarrow> string) \<Rightarrow> nat \<Rightarrow> string list \<Rightarrow> Reader \<Rightarrow> string option
     \<Rightarrow> Facade option" where
  "InterfaceFrom ctx render fuel implementers reader ns =
     map_option (\<lambda>r. after_implementation render (fst r))
       (InterfaceFromElement ctx fuel implementers reader ns)"


section \<open>The generated serialization\<close>

text \<open>
  The visitor writes to a \<open>WrappedXmlWriter\<close>, which holds the prefix and the namespace and
  passes every call on to the \<open>XmlWriter\<close>. The calls the \<open>XmlWriter\<close> receives are
  collected in a list. An exception ends the serialization.
\<close>

datatype WriterCall =
    WriteStartElement "string option" string "string option"
  | WriteEndElement
  | WriteValue_bool bool
  | WriteValue_long "64 word"
  | WriteValue_double "64 word"
  | WriteValue_string string
  | WriteBase64 "8 word list"

record WrappedXmlWriter =
  writer_prefix :: "string option"
  writer_ns :: "string option"

type_synonym Written = "(WriterCall list) Outcome"

text \<open>Statements one after the other: the first that does not complete ends the method.\<close>

fun in_order :: "Written list \<Rightarrow> Written" where
  "in_order [] = Ok []"
| "in_order (Ok calls # rest) =
     (case in_order rest of Ok later \<Rightarrow> Ok (calls @ later) | other \<Rightarrow> other)"
| "in_order (other # rest) = other"

text \<open>\<open>writer.WriteStartElement(name); ...; writer.WriteEndElement();\<close>\<close>

definition element :: "WrappedXmlWriter \<Rightarrow> string \<Rightarrow> Written \<Rightarrow> Written" where
  "element writer localName body =
     (case body of
        Ok calls \<Rightarrow>
          Ok (WriteStartElement (writer_prefix writer) localName (writer_ns writer)
              # calls @ [WriteEndElement])
      | other \<Rightarrow> other)"




text \<open>
  \<open>that.<Property>\<close>: the property of an instance is the argument its constructor was given
  under the property's name.
\<close>

definition get_property :: "Class \<Rightarrow> Data list \<Rightarrow> string \<Rightarrow> Data option" where
  "get_property cls args name = map_of (zip (constructor_arguments cls) args) name"






section \<open>From the writer to the reader\<close>

text \<open>
  \<open>XmlWriter\<close> turns the calls into text and \<open>XmlReader\<close> turns the text into nodes; both
  belong to the platform. \<open>read_back\<close> gives the nodes a reader finds in the document that
  the calls have written, without indentation: an element that is ended right after it was
  started is self-closing, any write of a value after the start makes it an element with an
  end element, a value is one text node (none when its text is empty), and the qualified
  name carries the prefix. \<open>opened\<close> are the elements started and not yet ended.
\<close>

definition qualified_name :: "string option \<Rightarrow> string \<Rightarrow> string" where
  "qualified_name p localName =
     (case p of None \<Rightarrow> localName | Some px \<Rightarrow> if px = [] then localName else px @ '':'' @ localName)"

definition element_node :: "string option \<Rightarrow> string \<Rightarrow> string option \<Rightarrow> bool \<Rightarrow> Node" where
  "element_node p localName n is_empty =
     \<lparr>node_type = Xml_Element, node_name = qualified_name p localName,
      node_local_name = localName,
      node_namespace_uri = (case n of None \<Rightarrow> [] | Some uri \<Rightarrow> uri),
      node_is_empty_element = is_empty, node_value = []\<rparr>"

definition end_element_node :: "string option \<Rightarrow> string \<Rightarrow> string option \<Rightarrow> Node" where
  "end_element_node p localName n =
     \<lparr>node_type = Xml_EndElement, node_name = qualified_name p localName,
      node_local_name = localName,
      node_namespace_uri = (case n of None \<Rightarrow> [] | Some uri \<Rightarrow> uri),
      node_is_empty_element = False, node_value = []\<rparr>"

definition text_node :: "string \<Rightarrow> Node" where
  "text_node s =
     \<lparr>node_type = Xml_Text, node_name = [], node_local_name = [], node_namespace_uri = [],
      node_is_empty_element = False, node_value = s\<rparr>"




section \<open>Valid instances\<close>






text \<open>\<open>enough P\<close>: \<open>P\<close> holds for every amount of fuel from some amount on.\<close>

definition enough :: "(nat \<Rightarrow> bool) \<Rightarrow> bool" where
  "enough P \<longleftrightarrow> (\<exists>n. \<forall>m\<ge>n. P m)"






text \<open>
  The value of a property of an instance, null when the constructor was given none, and
  the temporaries after the elements of the properties \<open>ps\<close> have been read.
\<close>

definition the_value :: "Class \<Rightarrow> Data list \<Rightarrow> string \<Rightarrow> Data" where
  "the_value cls args name =
     (case get_property cls args name of None \<Rightarrow> Null | Some v \<Rightarrow> v)"

definition slots_after :: "Class \<Rightarrow> Data list \<Rightarrow> Property list \<Rightarrow> Slots \<Rightarrow> Slots" where
  "slots_after cls args ps slots =
     (\<lambda>name. if name \<in> set (map prop_name ps) then the_value cls args name else slots name)"


section \<open>An example schema\<close>

text \<open>
  A small symbol table for the examples: an enumeration, a class with one required
  property, an abstract class with two implementers, a class without properties, and a
  class with a property of every kind. The naming functions are the identity, and the
  conversions are fragments of those of the platform, enough for the values of the
  examples.
\<close>

definition Item_class :: Class where
  "Item_class =
     \<lparr>cls_name = ''Item'',
      properties = [\<lparr>prop_name = ''value'', type_annotation = PrimitiveTypeAnnotation INT'\<rparr>],
      constructor_arguments = [''value''], concrete_descendants = [], interface = None\<rparr>"

definition Shape_class :: Class where
  "Shape_class =
     \<lparr>cls_name = ''Shape'', properties = [], constructor_arguments = [],
      concrete_descendants = [''Circle'', ''Square''],
      interface = Some [''Circle'', ''Square'']\<rparr>"

definition Circle_class :: Class where
  "Circle_class =
     \<lparr>cls_name = ''Circle'',
      properties = [\<lparr>prop_name = ''radius'', type_annotation = PrimitiveTypeAnnotation INT'\<rparr>],
      constructor_arguments = [''radius''], concrete_descendants = [], interface = None\<rparr>"

definition Square_class :: Class where
  "Square_class =
     \<lparr>cls_name = ''Square'',
      properties = [\<lparr>prop_name = ''side'', type_annotation = PrimitiveTypeAnnotation INT'\<rparr>],
      constructor_arguments = [''side''], concrete_descendants = [], interface = None\<rparr>"

definition Marker_class :: Class where
  "Marker_class =
     \<lparr>cls_name = ''Marker'', properties = [], constructor_arguments = [],
      concrete_descendants = [], interface = None\<rparr>"

definition Cls_class :: Class where
  "Cls_class =
     \<lparr>cls_name = ''Cls'',
      properties =
        [\<lparr>prop_name = ''name'', type_annotation = PrimitiveTypeAnnotation STR'\<rparr>,
         \<lparr>prop_name = ''count'',
          type_annotation = OptionalTypeAnnotation (PrimitiveTypeAnnotation INT')\<rparr>,
         \<lparr>prop_name = ''data'',
          type_annotation = OptionalTypeAnnotation (PrimitiveTypeAnnotation BYTEARRAY)\<rparr>,
         \<lparr>prop_name = ''color'',
          type_annotation = OptionalTypeAnnotation (OurTypeAnnotation ''Color'')\<rparr>,
         \<lparr>prop_name = ''nested'',
          type_annotation = OptionalTypeAnnotation (OurTypeAnnotation ''Item'')\<rparr>,
         \<lparr>prop_name = ''shape'',
          type_annotation = OptionalTypeAnnotation (OurTypeAnnotation ''Shape'')\<rparr>,
         \<lparr>prop_name = ''items'',
          type_annotation =
            OptionalTypeAnnotation (ListTypeAnnotation (OurTypeAnnotation ''Item''))\<rparr>,
         \<lparr>prop_name = ''marker'',
          type_annotation = OptionalTypeAnnotation (OurTypeAnnotation ''Marker'')\<rparr>],
      constructor_arguments =
        [''name'', ''count'', ''data'', ''color'', ''nested'', ''shape'', ''items'', ''marker''],
      concrete_descendants = [], interface = None\<rparr>"

definition example_symbol :: "string \<Rightarrow> Symbol" where
  "example_symbol s =
     (if s = ''Item'' then ConcreteClass Item_class
      else if s = ''Shape'' then AbstractClass Shape_class
      else if s = ''Circle'' then ConcreteClass Circle_class
      else if s = ''Square'' then ConcreteClass Square_class
      else if s = ''Marker'' then ConcreteClass Marker_class
      else if s = ''Cls'' then ConcreteClass Cls_class
      else Enumeration [(''Red'', ''RED''), (''Green'', ''GREEN'')])"

definition example_ToBoolean :: "string \<Rightarrow> Exception + bool" where
  "example_ToBoolean s =
     (if s = ''true'' \<or> s = ''1'' then Inr True
      else if s = ''false'' \<or> s = ''0'' then Inr False
      else Inl (FormatException s))"

fun decimal :: "int \<Rightarrow> string \<Rightarrow> int option" where
  "decimal acc [] = Some acc"
| "decimal acc (c # cs) =
     (if is_digit c then decimal (10 * acc + (of_char c - 48)) cs else None)"

definition example_ToInt64 :: "string \<Rightarrow> Exception + 64 word" where
  "example_ToInt64 s =
     (case s of
        [] \<Rightarrow> Inl (FormatException s)
      | c # cs \<Rightarrow>
          if c = CHR ''-'' \<and> cs \<noteq> []
          then (case decimal 0 cs of
                  None \<Rightarrow> Inl (FormatException s)
                | Some n \<Rightarrow>
                    if n \<le> 9223372036854775808 then Inr (- of_int n)
                    else Inl (OverflowException s))
          else (case decimal 0 s of
                  None \<Rightarrow> Inl (FormatException s)
                | Some n \<Rightarrow>
                    if n < 9223372036854775808 then Inr (of_int n)
                    else Inl (OverflowException s)))"

definition example_ToDouble :: "string \<Rightarrow> Exception + 64 word" where
  "example_ToDouble s =
     (if s = ''0'' then Inr 0
      else if s = ''1'' then Inr 0x3FF0000000000000
      else Inl (FormatException s))"

definition example_DoubleToString :: "64 word \<Rightarrow> string" where
  "example_DoubleToString d = (if d = 0 then ''0'' else if d = 0x3FF0000000000000 then ''1'' else ''NaN'')"

definition example_FromBase64String :: "string \<Rightarrow> Exception + 8 word list" where
  "example_FromBase64String s =
     (if s = [] then Inr []
      else if s = ''AAEC'' then Inr [0, 1, 2]
      else Inl (FormatException s))"

definition example_ToBase64String :: "8 word list \<Rightarrow> string" where
  "example_ToBase64String b = (if b = [0, 1, 2] then ''AAEC'' else [])"

definition example :: Context where
  "example =
     \<lparr>symbol = example_symbol,
      xml_property = (\<lambda>name. name),
      xml_class_name = (\<lambda>name. name),
      property_name = (\<lambda>name. name),
      class_name = (\<lambda>name. name),
      enum_name = (\<lambda>name. name),
      ToBoolean = example_ToBoolean,
      ToInt64 = example_ToInt64,
      ToDouble = example_ToDouble,
      FromBase64String = example_FromBase64String,
      BooleanToString = (\<lambda>b. if b then ''true'' else ''false''),
      Int64ToString = (\<lambda>i. string_of_int (sint i)),
      DoubleToString = example_DoubleToString,
      ToBase64String = example_ToBase64String\<rparr>"

text \<open>Nodes of a document without namespace.\<close>

definition start_tag :: "string \<Rightarrow> Node" where
  "start_tag name = element_node None name None False"

definition empty_tag :: "string \<Rightarrow> Node" where
  "empty_tag name = element_node None name None True"

definition end_tag :: "string \<Rightarrow> Node" where
  "end_tag name = end_element_node None name None"


section \<open>Rendering of paths\<close>

lemma string_of_nat_digit: "n < 10 \<Longrightarrow> string_of_nat n = [digit_char n]"
  by (simp add: string_of_nat.simps)

lemma replace_Nil [simp]: "replace t r [] = []"
  by (simp add: replace_def)

lemma replace_Cons [simp]:
  "replace t r (c # cs) = (if c = t then r else [c]) @ replace t r cs"
  by (simp add: replace_def)

lemma replace_append: "replace t r (xs @ ys) = replace t r xs @ replace t r ys"
  by (simp add: replace_def)

lemma escaped_Nil: "escaped [] = []"
  by (simp add: escaped_def)

lemma escaped_Cons: "escaped (c # cs) = escaped_char c @ escaped cs"
  by (simp add: escaped_def escaped_char_def replace_append)

lemma escaped_concat: "escaped name = concat (map escaped_char name)"
  by (induction name) (simp_all add: escaped_Nil escaped_Cons)

text \<open>
  Claim C7. A name that is not a variable name is rendered between \<open>["\<close> and \<open>"]\<close> with tab,
  backspace, newline, carriage return, form feed, double quote and backslash each escaped
  once. The generated code replaces the backslash last, so the backslash written for each
  of the other six characters is doubled: the name \<open>a<TAB>b\<close> is rendered with two
  backslashes before the \<open>t\<close>, not one.
\<close>

theorem generateJsonPath_tab_doubly_escaped:
  "generateJsonPath [NameSegment [CHR ''a'', TAB, CHR ''b'']]
     = [CHR ''['', DQUOTE, CHR ''a'', BACKSLASH, BACKSLASH, CHR ''t'', CHR ''b'', DQUOTE, CHR '']'']
   \<and> generateJsonPath [NameSegment [CHR ''a'', TAB, CHR ''b'']]
     \<noteq> [CHR ''['', DQUOTE, CHR ''a'', BACKSLASH, CHR ''t'', CHR ''b'', DQUOTE, CHR '']'']"
  by (simp add: generateJsonPath_def escaped_def is_letter_or_underscore_def is_digit_def)

text \<open>
  Claim C8. The segments \<open>[Name "items", Index 2, Name "value"]\<close> are rendered as
  \<open>items[2].value\<close> by the dotted-bracket renderer and as \<open>items/*[2]/value\<close> by the
  slash-form renderer.
\<close>

theorem render_items_2_value:
  "generateJsonPath [NameSegment ''items'', IndexSegment 2, NameSegment ''value'']
     = ''items[2].value''
   \<and> generateRelativeXPath [NameSegment ''items'', IndexSegment 2, NameSegment ''value'']
     = ''items/*[2]/value''"
  by (simp add: generateJsonPath_def generateRelativeXPath_def escapeForXPath_def
      string_of_int_def string_of_nat_digit digit_char_def
      is_letter_or_underscore_def is_digit_def)

section \<open>Unfolding the generated functions\<close>

lemma and_then_simps [simp]:
  "and_then None f = None"
  "and_then (Some (Ok v, r)) f = f v r"
  "and_then (Some (Failed e, r)) f = Some (Failed e, r)"
  "and_then (Some (Thrown x, r)) f = Some (Thrown x, r)"
  "and_then (Some (Ungenerated, r)) f = Some (Ungenerated, r)"
  by (simp_all add: and_then_def)

lemma with_segment_simps [simp]:
  "with_segment s None = None"
  "with_segment s (Some (Ok v, r)) = Some (Ok v, r)"
  "with_segment s (Some (Failed e, r)) = Some (Failed (PrependSegment s e), r)"
  "with_segment s (Some (Thrown x, r)) = Some (Thrown x, r)"
  "with_segment s (Some (Ungenerated, r)) = Some (Ungenerated, r)"
  by (simp_all add: with_segment_def)

lemma FromSequence_Suc:
  "FromSequence ctx (Suc fuel) = FromSequence_step ctx (sequence_loop ctx fuel)"
  by (simp add: Let_def FromSequence_def sequence_loop_def)

lemma sequence_loop_Suc:
  "sequence_loop ctx (Suc fuel) =
     sequence_loop_step ctx (deserialize_property ctx fuel) (sequence_loop ctx fuel)"
  by (simp add: Let_def sequence_loop_def deserialize_property_def)

lemma deserialize_property_Suc:
  "deserialize_property ctx (Suc fuel) =
     deserialize_property_step ctx (FromSequence ctx fuel) (InterfaceFromElement ctx fuel)
       (list_loop ctx fuel)"
  by (simp add: Let_def deserialize_property_def FromSequence_def InterfaceFromElement_def list_loop_def)

lemma list_loop_Suc:
  "list_loop ctx (Suc fuel) = list_loop_step (item_from_element ctx fuel) (list_loop ctx fuel)"
  by (simp add: Let_def list_loop_def item_from_element_def)

lemma item_from_element_Suc:
  "item_from_element ctx (Suc fuel) =
     item_from_element_step (ClassFromElement ctx fuel) (InterfaceFromElement ctx fuel)"
  by (simp add: Let_def item_from_element_def ClassFromElement_def InterfaceFromElement_def)

lemma ClassFromElement_Suc:
  "ClassFromElement ctx (Suc fuel) = ClassFromElement_step ctx (FromSequence ctx fuel)"
  by (simp add: Let_def ClassFromElement_def FromSequence_def)

lemma InterfaceFromElement_Suc:
  "InterfaceFromElement ctx (Suc fuel) =
     InterfaceFromElement_step ctx (ClassFromElement ctx fuel)"
  by (simp add: Let_def InterfaceFromElement_def ClassFromElement_def)

lemma out_of_fuel:
  "FromSequence ctx 0 cls reader e ns = None"
  "sequence_loop ctx 0 cls slots reader ns = None"
  "deserialize_property ctx 0 prop cls e n reader ns = None"
  "list_loop ctx 0 item_symbol i l reader ns = None"
  "item_from_element ctx 0 item_symbol reader ns = None"
  "ClassFromElement ctx 0 cls reader ns = None"
  "InterfaceFromElement ctx 0 impls reader ns = None"
  by (simp_all add: FromSequence_def sequence_loop_def deserialize_property_def list_loop_def
      item_from_element_def ClassFromElement_def InterfaceFromElement_def)

lemma reader_Cons [simp]:
  "EOF (n # rest) = False"
  "NodeType (n # rest) = node_type n"
  "Name (n # rest) = node_name n"
  "LocalName (n # rest) = node_local_name n"
  "NamespaceURI (n # rest) = node_namespace_uri n"
  "IsEmptyElement (n # rest) = node_is_empty_element n"
  "Value (n # rest) = node_value n"
  "Read (n # rest) = rest"
  by (simp_all add: EOF_def NodeType_def Name_def LocalName_def NamespaceURI_def
      IsEmptyElement_def Value_def Read_def)

lemma reader_Nil [simp]:
  "EOF [] = True"
  "NodeType [] = Xml_None"
  "Read [] = []"
  by (simp_all add: EOF_def NodeType_def Read_def)

lemma Skip_Nil [simp]: "SkipNoneWhitespaceAndComments [] = []"
  by simp

lemma Skip_element [simp]:
  "node_type n = Xml_Element \<Longrightarrow> SkipNoneWhitespaceAndComments (n # rest) = n # rest"
  by simp

lemma Skip_end_element [simp]:
  "node_type n = Xml_EndElement \<Longrightarrow> SkipNoneWhitespaceAndComments (n # rest) = n # rest"
  by simp

lemma deserialize_property_primitive:
  assumes "try_primitive_type ctx (beneath_optional (type_annotation prop)) = Some a_type"
  shows "deserialize_property ctx (Suc fuel) prop cls isEmptyProperty elementName reader ns
     = Some (deserialize_primitive_property ctx prop cls isEmptyProperty reader)"
proof (cases "beneath_optional (type_annotation prop)")
  case (PrimitiveTypeAnnotation a)
  then show ?thesis
    by (simp add: deserialize_property_Suc deserialize_property_step_def)
next
  case (OurTypeAnnotation s)
  with assms obtain a where "symbol ctx s = ConstrainedPrimitive a"
    by (auto split: Symbol.splits)
  with OurTypeAnnotation show ?thesis
    by (simp add: deserialize_property_Suc deserialize_property_step_def)
next
  case (ListTypeAnnotation items)
  with assms show ?thesis by simp
next
  case (OptionalTypeAnnotation t)
  with assms show ?thesis by simp
qed

text \<open>One iteration of the sequence loop on an element that names a property.\<close>

lemma sequence_loop_property:
  assumes "node_type node = Xml_Element"
    and "TryElementName (node # rest) ns = Ok elementName"
    and "find (\<lambda>p. xml_property ctx (prop_name p) = elementName) (properties cls) = Some prop"
  shows "sequence_loop ctx (Suc fuel) cls slots (node # rest) ns
     = and_then
         (deserialize_property ctx fuel prop cls (node_is_empty_element node) elementName rest ns)
         (\<lambda>v reader1.
            and_then
              (Some (if node_is_empty_element node
                     then (Ok (), SkipNoneWhitespaceAndComments reader1)
                     else read_property_end ctx cls elementName
                            (SkipNoneWhitespaceAndComments reader1) ns))
              (\<lambda>u reader2.
                 if EOF reader2
                 then Some (Ok (slots(prop_name prop := v)), reader2)
                 else sequence_loop ctx fuel cls (slots(prop_name prop := v)) reader2 ns))"
  using assms by (simp add: sequence_loop_Suc sequence_loop_step_def)

lemma first_missing_find:
  "first_missing props slots
     = find (\<lambda>p. \<not> is_optional (type_annotation p) \<and> slots (prop_name p) = Null) props"
  by (induction props) simp_all

text \<open>The loop gives from a state what it gives from every state it reaches.\<close>

lemma reaches_sequence_loop:
  "reaches ctx cls ns state state'
   \<Longrightarrow> sequence_loop ctx (fst state) cls (fst (snd state)) (snd (snd state)) ns
       = sequence_loop ctx (fst state') cls (fst (snd state')) (snd (snd state')) ns"
proof (induction rule: reaches.induct)
  case start
  show ?case by simp
next
  case (property state fuel slots reader elementName p v reader1 reader2)
  have "sequence_loop ctx (Suc fuel) cls slots reader ns
      = sequence_loop ctx fuel cls (slots(prop_name p := v)) reader2 ns"
    using property.hyps
    by (simp add: sequence_loop_Suc sequence_loop_step_def split: if_splits)
  with property.IH show ?case by (simp add: fun_upd_def)
qed

lemma reaches_not_EOF:
  "reaches ctx cls ns state state' \<Longrightarrow> \<not> EOF (snd (snd state')) \<Longrightarrow> \<not> EOF (snd (snd state))"
  by (induction rule: reaches.induct) (auto simp add: EOF_def NodeType_def split: list.splits)

section \<open>The claims about the deserialization\<close>

lemmas example_simps =
  example_def example_symbol_def Cls_class_def Item_class_def Marker_class_def Shape_class_def
  Circle_class_def Square_class_def start_tag_def empty_tag_def end_tag_def element_node_def
  end_element_node_def text_node_def qualified_name_def TryElementName_def

lemmas step_simps =
  ClassFromElement_Suc ClassFromElement_step_def FromSequence_Suc FromSequence_step_def
  sequence_loop_Suc sequence_loop_step_def deserialize_property_Suc deserialize_property_step_def
  list_loop_Suc list_loop_step_def item_from_element_Suc item_from_element_step_def
  InterfaceFromElement_Suc InterfaceFromElement_step_def
  deserialize_primitive_property_def deserialize_enumeration_property_def
  read_property_end_def read_class_end_def check_and_construct_def construct_def
  required_argument_def new_Error_def PrependSegment_def

lemma read_content_text [simp]:
  "read_content (text_node s # end_tag n # rest) = (s, end_tag n # rest)"
  by (simp add: text_node_def end_tag_def end_element_node_def)

text \<open>
  Claim C10. For a class whose constructor takes no arguments, \<open><Class>FromSequence\<close>
  succeeds with a new instance and leaves the reader where it is, whatever
  \<open>isEmptySequence\<close> is and whatever the reader holds: an element inside such a class's
  element is not reported by the sequence function and stays the current node.
\<close>

theorem FromSequence_no_arguments:
  "constructor_arguments cls = [] \<Longrightarrow>
   FromSequence ctx (Suc fuel) cls reader isEmptySequence ns
     = Some (Ok (Instance (cls_name cls) []), reader)"
  by (simp add: FromSequence_Suc FromSequence_step_def)

theorem FromSequence_no_arguments_witness:
  "constructor_arguments Marker_class = []
   \<and> FromSequence example (Suc 0) Marker_class [empty_tag ''bogus'', end_tag ''marker''] False None
       = Some (Ok (Instance ''Marker'' []), [empty_tag ''bogus'', end_tag ''marker''])"
  using FromSequence_no_arguments [of Marker_class example 0 "[empty_tag ''bogus'', end_tag ''marker'']" False None]
  by (simp add: Marker_class_def)

text \<open>
  Claim C2, as the code has it. For a class whose constructor takes arguments (for a
  constructor without arguments no loop is generated): when the loop of
  \<open><Class>FromSequence\<close>, after any number of properties read, is at an element whose name
  is not the name of a property of the class, \<open><Class>FromSequence\<close> fails with the cause
  that names the class and the element, and the path of the error is empty: the \<open>default\<close>
  branch of the \<open>switch\<close> prepends no segment. In the first example the unknown element
  comes after a property; the second is the document \<open><Cls><bogus/></Cls>\<close>, read by
  \<open><Class>FromElement\<close>, whose error has the empty path and not the name of the element.
\<close>

theorem unknown_property:
  assumes args: "constructor_arguments cls \<noteq> []"
    and same: "set (map prop_name (properties cls)) = set (constructor_arguments cls)"
    and reached: "reaches ctx cls ns (fuel, \<lambda>name. Null, SkipNoneWhitespaceAndComments reader)
                    (Suc fuel', slots, node # rest)"
    and element: "node_type node = Xml_Element"
    and name: "TryElementName (node # rest) ns = Ok elementName"
    and unknown: "find (\<lambda>p. xml_property ctx (prop_name p) = elementName) (properties cls) = None"
  shows "FromSequence ctx (Suc fuel) cls reader False ns
     = Some (Failed \<lparr>cause = msg_unexpected_property (class_name ctx (cls_name cls)) elementName,
                     pathSegments = []\<rparr>, rest)"
proof -
  from reaches_not_EOF [OF reached]
  have more: "\<not> EOF (SkipNoneWhitespaceAndComments reader)" by simp
  have "sequence_loop ctx fuel cls (\<lambda>name. Null) (SkipNoneWhitespaceAndComments reader) ns
      = sequence_loop ctx (Suc fuel') cls slots (node # rest) ns"
    using reaches_sequence_loop [OF reached] by simp
  also have "\<dots> = Some (Failed \<lparr>cause = msg_unexpected_property (class_name ctx (cls_name cls))
                                      elementName, pathSegments = []\<rparr>, rest)"
    using element name unknown
    by (simp add: sequence_loop_Suc sequence_loop_step_def new_Error_def)
  finally show ?thesis
    using args same more by (simp add: FromSequence_Suc FromSequence_step_def)
qed

theorem unknown_property_witness:
  "FromSequence example (Suc (Suc (Suc 0))) Cls_class
       [start_tag ''name'', text_node ''n'', end_tag ''name'', empty_tag ''bogus'', end_tag ''Cls'']
       False None
     = Some (Failed \<lparr>cause = msg_unexpected_property ''Cls'' ''bogus'', pathSegments = []\<rparr>,
             [end_tag ''Cls''])"
proof -
  let ?document = "[start_tag ''name'', text_node ''n'', end_tag ''name'', empty_tag ''bogus'',
                    end_tag ''Cls'']"
  have "reaches example Cls_class None (Suc (Suc 0), \<lambda>name. Null, ?document)
          (Suc 0, (\<lambda>name. Null)(prop_name \<lparr>prop_name = ''name'',
                     type_annotation = PrimitiveTypeAnnotation STR'\<rparr> := Str ''n''),
           [empty_tag ''bogus'', end_tag ''Cls''])"
    by (rule reaches.property [where elementName = "''name''"
          and content_read = "[end_tag ''name'', empty_tag ''bogus'', end_tag ''Cls'']",
          OF reaches.start])
       (simp_all add: step_simps example_simps read_primitive_def ReadContentAsString_def
          CanReadContentAs_def)
  then have "reaches example Cls_class None
          (Suc (Suc 0), \<lambda>name. Null, SkipNoneWhitespaceAndComments ?document)
          (Suc 0, (\<lambda>name. Null)(''name'' := Str ''n''),
           empty_tag ''bogus'' # [end_tag ''Cls''])"
    by (simp add: start_tag_def element_node_def)
  from unknown_property [OF _ _ this, of "''bogus''"] show ?thesis
    by (simp add: example_simps)
qed

theorem unknown_property_counterexample:
  "ClassFromElement example (Suc (Suc (Suc 0))) Cls_class
       [start_tag ''Cls'', empty_tag ''bogus'', end_tag ''Cls''] None
     = Some (Failed \<lparr>cause = msg_unexpected_property ''Cls'' ''bogus'', pathSegments = []\<rparr>,
             [end_tag ''Cls''])
   \<and> ClassFromElement example (Suc (Suc (Suc 0))) Cls_class
       [start_tag ''Cls'', empty_tag ''bogus'', end_tag ''Cls''] None
     \<noteq> Some (Failed \<lparr>cause = msg_unexpected_property ''Cls'' ''bogus'',
                      pathSegments = [NameSegment ''bogus'']\<rparr>, [end_tag ''Cls''])"
  by (simp add: ClassFromElement_Suc ClassFromElement_step_def FromSequence_Suc
      FromSequence_step_def sequence_loop_Suc sequence_loop_step_def new_Error_def example_simps)

text \<open>
  Claim C3, as the code has it. A self-closing element of a property of type byte array
  (a primitive or a constrained primitive) fails: the cause says that the property needs
  content, and the path is the single segment with the name of the property.
\<close>

theorem empty_bytes_property:
  assumes "node_type node = Xml_Element"
    and "node_is_empty_element node"
    and "TryElementName (node # rest) ns = Ok elementName"
    and "find (\<lambda>p. xml_property ctx (prop_name p) = elementName) (properties cls) = Some prop"
    and "try_primitive_type ctx (beneath_optional (type_annotation prop)) = Some BYTEARRAY"
  shows "sequence_loop ctx (Suc (Suc fuel)) cls slots (node # rest) ns
     = Some (Failed \<lparr>cause = msg_needs_content (property_name ctx (prop_name prop))
                               (class_name ctx (cls_name cls)),
                     pathSegments = [NameSegment (xml_property ctx (prop_name prop))]\<rparr>, rest)"
  using assms
  by (simp add: sequence_loop_property deserialize_property_primitive
      deserialize_primitive_property_def new_Error_def PrependSegment_def)

theorem empty_bytes_property_witness:
  "sequence_loop example (Suc (Suc 0)) Cls_class (\<lambda>name. Null)
       [empty_tag ''data'', end_tag ''Cls''] None
     = Some (Failed \<lparr>cause = msg_needs_content ''data'' ''Cls'',
                     pathSegments = [NameSegment ''data'']\<rparr>, [end_tag ''Cls''])"
  using empty_bytes_property [of "empty_tag ''data''" "[end_tag ''Cls'']" None "''data''" example
      Cls_class "\<lparr>prop_name = ''data'',
          type_annotation = OptionalTypeAnnotation (PrimitiveTypeAnnotation BYTEARRAY)\<rparr>"
      0 "\<lambda>name. Null"]
  by (simp add: example_simps)

theorem empty_bytes_property_counterexample:
  "ClassFromElement example (Suc (Suc (Suc (Suc 0)))) Cls_class
       [start_tag ''Cls'', empty_tag ''data'', end_tag ''Cls''] None
     = Some (Failed \<lparr>cause = msg_needs_content ''data'' ''Cls'',
                     pathSegments = [NameSegment ''data'']\<rparr>, [end_tag ''Cls''])"
  by (simp add: step_simps example_simps)

text \<open>
  Claim C6. A self-closing element of a property of primitive type: for a string the
  property is read as the empty string and the loop goes on with that value in the
  property's temporary; for a boolean, an integer and a float the function fails, the cause
  says that the property needs content, and the path is the single segment with the name
  of the property.
\<close>

theorem self_closing_scalar:
  assumes "node_type node = Xml_Element"
    and "node_is_empty_element node"
    and "TryElementName (node # rest) ns = Ok elementName"
    and "find (\<lambda>p. xml_property ctx (prop_name p) = elementName) (properties cls) = Some prop"
    and "try_primitive_type ctx (beneath_optional (type_annotation prop)) = Some a_type"
  shows "(a_type = STR' \<longrightarrow>
            deserialize_property ctx (Suc fuel) prop cls True elementName rest ns
              = Some (Ok (Str []), rest)
          \<and> sequence_loop ctx (Suc (Suc fuel)) cls slots (node # rest) ns
              = (if EOF (SkipNoneWhitespaceAndComments rest)
                 then Some (Ok (slots(prop_name prop := Str [])),
                            SkipNoneWhitespaceAndComments rest)
                 else sequence_loop ctx (Suc fuel) cls (slots(prop_name prop := Str []))
                        (SkipNoneWhitespaceAndComments rest) ns))
       \<and> (a_type = BOOL \<or> a_type = INT' \<or> a_type = FLOAT \<longrightarrow>
            sequence_loop ctx (Suc (Suc fuel)) cls slots (node # rest) ns
              = Some (Failed \<lparr>cause = msg_needs_content (property_name ctx (prop_name prop))
                                        (class_name ctx (cls_name cls)),
                              pathSegments = [NameSegment (xml_property ctx (prop_name prop))]\<rparr>,
                      rest))"
  using assms
  by (auto simp add: sequence_loop_property deserialize_property_primitive
      deserialize_primitive_property_def new_Error_def PrependSegment_def)

theorem self_closing_scalar_witness:
  "sequence_loop example (Suc (Suc 0)) Cls_class (\<lambda>name. Null)
       [empty_tag ''name'', end_tag ''Cls''] None
     = Some (Ok ((\<lambda>name. Null)(''name'' := Str [])), [end_tag ''Cls''])
   \<and> sequence_loop example (Suc (Suc 0)) Item_class (\<lambda>name. Null)
       [empty_tag ''value'', end_tag ''Item''] None
     = Some (Failed \<lparr>cause = msg_needs_content ''value'' ''Item'',
                     pathSegments = [NameSegment ''value'']\<rparr>, [end_tag ''Item''])"
  using self_closing_scalar [of "empty_tag ''name''" "[end_tag ''Cls'']" None "''name''" example
      Cls_class "\<lparr>prop_name = ''name'', type_annotation = PrimitiveTypeAnnotation STR'\<rparr>"
      STR' 0 "\<lambda>name. Null"]
    self_closing_scalar [of "empty_tag ''value''" "[end_tag ''Item'']" None "''value''" example
      Item_class "\<lparr>prop_name = ''value'', type_annotation = PrimitiveTypeAnnotation INT'\<rparr>"
      INT' 0 "\<lambda>name. Null"]
  by (simp add: example_simps sequence_loop_Suc sequence_loop_step_def)

text \<open>
  Claim C5. When the sequence loop has ended (or was not entered, the sequence being empty)
  and the temporary of a property that is not optional is still null, \<open><Class>FromSequence\<close>
  fails with the cause that names the first such property in declaration order, and the
  path of the error is empty. The end of the document after a property ends the loop like
  any node that is not an element: in the witness the document ends after \<open>count\<close> and
  the missing \<open>name\<close> is reported.
\<close>

theorem missing_required_property:
  assumes "constructor_arguments cls \<noteq> []"
    and "set (map prop_name (properties cls)) = set (constructor_arguments cls)"
    and "if isEmptySequence
         then slots = (\<lambda>name. Null) \<and> reader' = reader
         else \<not> EOF (SkipNoneWhitespaceAndComments reader)
              \<and> sequence_loop ctx fuel cls (\<lambda>name. Null) (SkipNoneWhitespaceAndComments reader) ns
                  = Some (Ok slots, reader')"
    and "find (\<lambda>p. \<not> is_optional (type_annotation p) \<and> slots (prop_name p) = Null)
           (properties cls) = Some prop"
  shows "FromSequence ctx (Suc fuel) cls reader isEmptySequence ns
     = Some (Failed \<lparr>cause = msg_required_property (property_name ctx (prop_name prop))
                               (class_name ctx (cls_name cls)),
                     pathSegments = []\<rparr>, reader')"
  using assms
  by (auto simp add: FromSequence_Suc FromSequence_step_def check_and_construct_def
      first_missing_find new_Error_def split: if_splits)

theorem missing_required_property_witness:
  "FromSequence example (Suc (Suc (Suc 0))) Cls_class
       [start_tag ''count'', text_node ''42'', end_tag ''count''] False None
     = Some (Failed \<lparr>cause = msg_required_property ''name'' ''Cls'', pathSegments = []\<rparr>, [])"
proof -
  have loop: "sequence_loop example (Suc (Suc 0)) Cls_class (\<lambda>name. Null)
      (SkipNoneWhitespaceAndComments [start_tag ''count'', text_node ''42'', end_tag ''count'']) None
    = Some (Ok ((\<lambda>name. Null)(''count'' := Long 42)), [])"
    by (simp add: step_simps example_simps read_primitive_def ReadContentAs_def
        ReadContentAsString_def CanReadContentAs_def example_ToInt64_def is_digit_def)
  show ?thesis
    using missing_required_property [of Cls_class False "(\<lambda>name. Null)(''count'' := Long 42)"
        "[]" "[start_tag ''count'', text_node ''42'', end_tag ''count'']" example "Suc (Suc 0)" None
        "\<lparr>prop_name = ''name'', type_annotation = PrimitiveTypeAnnotation STR'\<rparr>"] loop
    by (simp add: example_simps)
qed

text \<open>
  Claim C4. The error of an item of a list should come back with the index of the item
  under the name of the property. The generated code prepends the index and returns: for
  \<open><items><Item/></items></Cls>\<close> the path is \<open>[Index 0]\<close>, without the name \<open>items\<close>.
\<close>

theorem list_item_error_path:
  "FromSequence example (Suc (Suc (Suc (Suc (Suc (Suc (Suc 0))))))) Cls_class
       [start_tag ''items'', empty_tag ''Item'', end_tag ''items'', end_tag ''Cls''] False None
     = Some (Failed \<lparr>cause = msg_required_property ''value'' ''Item'',
                     pathSegments = [IndexSegment 0]\<rparr>,
             [end_tag ''items'', end_tag ''Cls''])"
  by (simp add: step_simps example_simps)

lemma and_then_Ok:
  "and_then m f = Some (Ok v, r) \<Longrightarrow> \<exists>w r'. m = Some (Ok w, r') \<and> f w r' = Some (Ok v, r)"
  by (auto simp add: and_then_def split: option.splits prod.splits Outcome.splits)

lemma FromSequence_Ok_Instance:
  assumes "FromSequence ctx fuel cls reader isEmptySequence ns = Some (Ok v, reader')"
  shows "\<exists>args. v = Instance (cls_name cls) args"
proof (cases fuel)
  case 0
  with assms show ?thesis by (simp add: out_of_fuel)
next
  case (Suc n)
  with assms show ?thesis
    by (auto simp add: FromSequence_Suc FromSequence_step_def check_and_construct_def
        construct_def split: if_splits option.splits dest!: and_then_Ok)
qed

lemma ClassFromElement_Ok_Instance:
  assumes "ClassFromElement ctx fuel cls reader ns = Some (Ok v, reader')"
  shows "\<exists>args. v = Instance (cls_name cls) args"
proof (cases fuel)
  case 0
  with assms show ?thesis by (simp add: out_of_fuel)
next
  case (Suc n)
  with assms show ?thesis
    by (auto simp add: ClassFromElement_Suc ClassFromElement_step_def
        split: if_splits dest!: and_then_Ok dest: FromSequence_Ok_Instance)
qed

text \<open>
  Claim C9. The facade of a class: when the implementation hands out an error, the facade
  throws the \<open>Xmlization.Exception\<close> whose path is the rendering of the error's segments
  and whose cause is the error's cause; when it hands out a result, the result is an
  instance, not null, and the facade returns it. Whatever pair of result and error the
  facade is given, it never returns null and never returns while an error is there.
\<close>

theorem facade_throws_or_returns:
  assumes "ClassFromElement ctx fuel cls reader ns = Some (outcome, reader')"
  shows "(\<forall>error. outcome = Failed error \<longrightarrow>
            ClassFrom ctx render fuel cls reader ns
              = Some (Xmlization_Exception (render (pathSegments error)) (cause error)))
       \<and> (\<forall>result. outcome = Ok result \<longrightarrow>
            result \<noteq> Null \<and> ClassFrom ctx render fuel cls reader ns = Some (Returned result))
       \<and> (\<forall>out. From render out \<noteq> Returned Null
                 \<and> (snd out \<noteq> None \<longrightarrow> (\<forall>v. From render out \<noteq> Returned v)))"
proof (intro conjI allI impI)
  fix error assume "outcome = Failed error"
  with assms show "ClassFrom ctx render fuel cls reader ns
      = Some (Xmlization_Exception (render (pathSegments error)) (cause error))"
    by (simp add: ClassFrom_def From_def)
next
  fix result assume ok: "outcome = Ok result"
  with assms ClassFromElement_Ok_Instance show "result \<noteq> Null" by fastforce
  with assms ok show "ClassFrom ctx render fuel cls reader ns = Some (Returned result)"
    by (simp add: ClassFrom_def From_def)
next
  fix out :: "Data \<times> Error option"
  show "From render out \<noteq> Returned Null"
    by (simp add: From_def split: option.splits)
next
  fix out :: "Data \<times> Error option" and v
  assume "snd out \<noteq> None"
  then show "From render out \<noteq> Returned v"
    by (auto simp add: From_def split: option.splits)
qed

theorem facade_throws_or_returns_witness:
  "ClassFrom example generateRelativeXPath (Suc (Suc (Suc (Suc 0)))) Cls_class
       [start_tag ''Cls'', empty_tag ''data'', end_tag ''Cls''] None
     = Some (Xmlization_Exception ''data'' (msg_needs_content ''data'' ''Cls''))
   \<and> ClassFrom example generateRelativeXPath (Suc (Suc (Suc (Suc 0)))) Cls_class
       [start_tag ''Cls'', empty_tag ''name'', end_tag ''Cls''] None
     = Some (Returned (Instance ''Cls'' [Str [], Null, Null, Null, Null, Null, Null, Null]))"
proof -
  have failed: "ClassFromElement example (Suc (Suc (Suc (Suc 0)))) Cls_class
       [start_tag ''Cls'', empty_tag ''data'', end_tag ''Cls''] None
     = Some (Failed \<lparr>cause = msg_needs_content ''data'' ''Cls'',
                     pathSegments = [NameSegment ''data'']\<rparr>, [end_tag ''Cls''])"
    by (simp add: step_simps example_simps)
  have ok: "ClassFromElement example (Suc (Suc (Suc (Suc 0)))) Cls_class
       [start_tag ''Cls'', empty_tag ''name'', end_tag ''Cls''] None
     = Some (Ok (Instance ''Cls'' [Str [], Null, Null, Null, Null, Null, Null, Null]), [])"
    by (simp add: step_simps example_simps)
  show ?thesis
    using facade_throws_or_returns [OF failed, of generateRelativeXPath]
      facade_throws_or_returns [OF ok, of generateRelativeXPath]
    by (simp add: generateRelativeXPath_def escapeForXPath_def)
qed

section \<open>Writing and reading back\<close>

subsection \<open>Enough fuel, and the nodes of the calls\<close>

lemma enoughI: "(\<And>m. n \<le> m \<Longrightarrow> P m) \<Longrightarrow> enough P"
  unfolding enough_def by blast

lemma enough_mono: "enough P \<Longrightarrow> (\<And>m. P m \<Longrightarrow> Q m) \<Longrightarrow> enough Q"
  unfolding enough_def by blast

lemma enough_conj: "enough P \<Longrightarrow> enough Q \<Longrightarrow> enough (\<lambda>m. P m \<and> Q m)"
proof -
  assume "enough P" and "enough Q"
  then obtain n1 n2 where 1: "\<forall>m\<ge>n1. P m" and 2: "\<forall>m\<ge>n2. Q m"
    unfolding enough_def by blast
  have "\<forall>m\<ge>max n1 n2. P m \<and> Q m" using 1 2 by simp
  then show ?thesis unfolding enough_def by blast
qed



lemma enough_ball:
  "(\<And>x. x \<in> set xs \<Longrightarrow> enough (P x)) \<Longrightarrow> enough (\<lambda>m. \<forall>x\<in>set xs. P x m)"
proof (induction xs)
  case Nil
  show ?case by (rule enoughI [of 0]) simp
next
  case (Cons x xs)
  have "enough (P x)" using Cons.prems by simp
  moreover have "enough (\<lambda>m. \<forall>y\<in>set xs. P y m)" using Cons by simp
  ultimately have "enough (\<lambda>m. P x m \<and> (\<forall>y\<in>set xs. P y m))" by (rule enough_conj)
  then show ?case by (rule enough_mono) simp
qed













subsection \<open>Properties of primitive and enumeration type\<close>

lemma not_EOF_append [simp]: "\<not> EOF (nodes @ e # rest)"
  by (simp add: EOF_def)










subsection \<open>Elements of classes, and properties of class and list type\<close>

lemma node_fields [simp]:
  "node_type (element_node p l n b) = Xml_Element"
  "node_is_empty_element (element_node p l n b) = b"
  "node_type (end_element_node p l n) = Xml_EndElement"
  by (simp_all add: element_node_def end_element_node_def)

lemma Skip_idem_end [simp]:
  "SkipNoneWhitespaceAndComments (end_element_node p l n # rest) = end_element_node p l n # rest"
  by simp









lemma in_order_Cons_Ok:
  "in_order rest = Ok later \<Longrightarrow> in_order (Ok calls # rest) = Ok (calls @ later)"
  by simp



subsection \<open>The sequence of a class\<close>







lemma slots_after_Nil [simp]: "slots_after cls args [] slots = slots"
  by (simp add: slots_after_def)





subsection \<open>Valid values and valid instances\<close>



subsection \<open>A valid instance of the example schema\<close>








subsection \<open>The round trip\<close>




end

